theory Spec2Isabelle
  imports Main "HOL-Library.Sublist"
begin

section \<open>Errors\<close>

text \<open>
  The handlers fail by throwing. Two kinds of thrown value matter to the code: Boom errors,
  which carry an HTTP status code (\<open>err.output.statusCode\<close>) and a data code
  (\<open>err.data.code\<close>, empty when none is given), and every other thrown value (a
  \<open>TypeError\<close>, an assertion failure), which carries its message.
\<close>

datatype error = Boom nat string | Thrown string

definition forbidden :: "string \<Rightarrow> error" where
  "forbidden code = Boom 403 code"

definition notFound :: error where
  "notFound = Boom 404 []"

definition internal :: error where
  "internal = Boom 500 []"

fun isBoom :: "error \<Rightarrow> bool" where
  "isBoom (Boom _ _) = True"
| "isBoom (Thrown _) = False"

text \<open>
  \<open>isNotFound\<close> of \<open>directory.js\<close> reads \<open>boom.output.statusCode\<close>. Its callers run
  \<open>Bounce.ignore(err, 'boom')\<close> first, which rethrows everything that is not a Boom error,
  so the second equation is never reached from the code.
\<close>

fun isNotFound :: "error \<Rightarrow> bool" where
  "isNotFound (Boom status _) = (status = 404)"
| "isNotFound (Thrown _) = False"

section \<open>POSIX paths\<close>

text \<open>
  \<open>Path.isAbsolute\<close>, \<open>Path.normalize\<close>, \<open>Path.join\<close> and \<open>Path.resolve\<close> of the
  runtime, in their POSIX form. A path is split at every \<open>/\<close>; empty segments and \<open>.\<close>
  are dropped, and \<open>..\<close> removes the segment before it (or is kept, for a relative path
  that climbs above its start).
\<close>

definition sep :: char where
  "sep = CHR ''/''"

fun split_sep :: "string \<Rightarrow> string list" where
  "split_sep [] = [[]]"
| "split_sep (c # cs) =
     (if c = sep then [] # split_sep cs
      else (case split_sep cs of [] \<Rightarrow> [[c]] | s # ss \<Rightarrow> (c # s) # ss))"

fun join_sep :: "string list \<Rightarrow> string" where
  "join_sep [] = []"
| "join_sep [s] = s"
| "join_sep (s # t # ss) = s @ sep # join_sep (t # ss)"

text \<open>
  \<open>normalizeSegments allowAboveRoot done todo\<close>: \<open>done\<close> holds the segments kept so far,
  the last one first.
\<close>

fun normalizeSegments :: "bool \<Rightarrow> string list \<Rightarrow> string list \<Rightarrow> string list" where
  "normalizeSegments allowAboveRoot done [] = rev done"
| "normalizeSegments allowAboveRoot done (s # ss) =
     (if s = [] \<or> s = ''.'' then normalizeSegments allowAboveRoot done ss
      else if s = ''..'' then
        (case done of
           [] \<Rightarrow> normalizeSegments allowAboveRoot (if allowAboveRoot then [s] else []) ss
         | d # ds \<Rightarrow>
             if d = ''..'' then normalizeSegments allowAboveRoot (s # done) ss
             else normalizeSegments allowAboveRoot ds ss)
      else normalizeSegments allowAboveRoot (s # done) ss)"

definition normalizeString :: "string \<Rightarrow> bool \<Rightarrow> string" where
  "normalizeString path allowAboveRoot =
     join_sep (normalizeSegments allowAboveRoot [] (split_sep path))"

definition isAbsolute :: "string \<Rightarrow> bool" where
  "isAbsolute path = (case path of [] \<Rightarrow> False | c # _ \<Rightarrow> c = sep)"

definition normalize :: "string \<Rightarrow> string" where
  "normalize path =
     (if path = [] then ''.''
      else
        let absolute = isAbsolute path;
            trailingSeparator = (last path = sep);
            p = normalizeString path (\<not> absolute)
        in if p = [] then (if absolute then ''/'' else if trailingSeparator then ''./'' else ''.'')
           else
             let q = (if trailingSeparator then p @ [sep] else p)
             in if absolute then sep # q else q)"

definition join :: "string \<Rightarrow> string \<Rightarrow> string" where
  "join a b =
     (if a = [] \<and> b = [] then ''.''
      else if a = [] then normalize b
      else if b = [] then normalize a
      else normalize (a @ sep # b))"

text \<open>
  \<open>Path.resolve(from, to)\<close> reads its arguments from the right until the path built so
  far is absolute, skipping empty ones, and falls back on the working directory of the
  process, which is the parameter \<open>cwd\<close>.
\<close>

definition resolve :: "string \<Rightarrow> string \<Rightarrow> string \<Rightarrow> string" where
  "resolve cwd from to =
     (let r1 = (if to = [] then [] else to @ [sep]);
          r2 = (if isAbsolute r1 \<or> from = [] then r1 else from @ sep # r1);
          r3 = (if isAbsolute r2 \<or> cwd = [] then r2 else cwd @ sep # r2);
          absolute = isAbsolute r3;
          p = normalizeString r3 (\<not> absolute)
      in if absolute then sep # p else if p = [] then ''.'' else p)"

section \<open>Numbers\<close>

text \<open>
  The numbers of the code are IEEE doubles. The model holds the integer-valued doubles
  and the two infinities, which is where sums and differences of integers land: the exact
  result is rounded to the nearest double, a tie going to the even mantissa, and a
  magnitude of \<open>2^1024\<close> or more is infinite. \<open>bitLength n\<close> is the number of binary
  digits of \<open>n\<close>; a double has 53 of them.
\<close>

datatype number = Num int | Infinity | NegInfinity

function bitLength :: "int \<Rightarrow> nat" where
  "bitLength n = (if n \<le> 0 then 0 else Suc (bitLength (n div 2)))"
  by pat_completeness auto
termination
  by (relation "measure nat") auto

declare bitLength.simps [simp del]

definition roundMagnitude :: "int \<Rightarrow> int" where
  "roundMagnitude n =
     (if bitLength n \<le> 53 then n
      else
        let e = bitLength n - 53;
            q = n div 2 ^ e;
            rest = n mod 2 ^ e;
            half = 2 ^ (e - 1)
        in (if half < rest then q + 1 else if rest = half \<and> odd q then q + 1 else q) * 2 ^ e)"

definition toDouble :: "int \<Rightarrow> number" where
  "toDouble i =
     (let m = roundMagnitude \<bar>i\<bar>
      in if 2 ^ 1024 \<le> m then (if i < 0 then NegInfinity else Infinity)
         else Num (if i < 0 then - m else m))"

text \<open>\<open>a - b\<close> for two integer-valued doubles, and \<open>x + 1\<close>.\<close>

definition difference :: "int \<Rightarrow> int \<Rightarrow> number" where
  "difference a b = toDouble (a - b)"

fun plusOne :: "number \<Rightarrow> number" where
  "plusOne (Num a) = toDouble (a + 1)"
| "plusOne Infinity = Infinity"
| "plusOne NegInfinity = NegInfinity"

text \<open>\<open>Number.isSafeInteger\<close>: the integers that doubles count without gaps.\<close>

definition isSafeInteger :: "int \<Rightarrow> bool" where
  "isSafeInteger n = (\<bar>n\<bar> \<le> 2 ^ 53 - 1)"

section \<open>Data model\<close>

text \<open>
  JavaScript values that the code tests for truth: a string is falsy when it is empty, and
  \<open>undefined\<close>, \<open>null\<close> and \<open>false\<close> (all \<open>None\<close> here) are falsy.
\<close>

definition truthy :: "string option \<Rightarrow> bool" where
  "truthy v = (case v of None \<Rightarrow> False | Some s \<Rightarrow> s \<noteq> [])"

text \<open>\<open>v || ''\<close> for a string or \<open>undefined\<close>.\<close>

definition orEmpty :: "string option \<Rightarrow> string" where
  "orEmpty v = (case v of None \<Rightarrow> [] | Some s \<Rightarrow> s)"

text \<open>
  \<open>source.path\<close> of a response: a string, \<open>null\<close> when confinement denied the path, and
  \<open>undefined\<close> once \<open>marshal\<close> has replaced the source by \<open>{}\<close>. Used as a property
  name of the cache object it is coerced to a string.
\<close>

datatype jspath = PNull | PUndefined | PString string

fun key_of :: "jspath \<Rightarrow> string" where
  "key_of PNull = ''null''"
| "key_of PUndefined = ''undefined''"
| "key_of (PString s) = s"

datatype etag_method = Hash | Simple | Disabled

text \<open>
  The options of a file response that this code reads or passes on. \<open>opt_end\<close> is the
  option \<open>end\<close>; \<open>None\<close> is \<open>undefined\<close>. \<open>start\<close> and \<open>end\<close> are integer-valued
  doubles: the schema of the handler asks for integers, and \<open>h.css\<close> passes on what it is
  given, so integers beyond the safe range are among them.
\<close>

record settings =
  opt_confine :: "string option"
  opt_mode :: "string option"
  opt_etagMethod :: "etag_method option"
  opt_start :: "int option"
  opt_end :: "int option"

text \<open>What \<open>file.openStat\<close> returns: \<open>stat_mtime\<close> is \<open>stat.mtime.toUTCString()\<close>.\<close>

record stat =
  stat_mtime :: string
  stat_size :: nat

text \<open>A \<open>Fs.File\<close> object: its path, and whether it holds an open descriptor.\<close>

datatype fsfile = File jspath bool

record source =
  src_path :: jspath
  src_settings :: "settings option"
  src_stat :: "stat option"
  src_file :: "fsfile option"

record headers =
  h_content_type :: "string option"
  h_last_modified :: "string option"
  h_etag :: "string option"
  h_content_length :: "number option"

text \<open>
  A response object of the framework: its source, its headers, and whether it was
  generated with a \<open>prepare\<close> processor.
\<close>

record response =
  source :: source
  headers :: headers
  has_prepare :: bool

text \<open>
  The record that \<open>marshal\<close> stores: \<open>rec_data\<close> is the \<open>css\<close> string of the result of
  the transformation, \<open>rec_size\<close> its length.
\<close>

record data_record =
  rec_mtime :: "string option"
  rec_etag :: "string option"
  rec_data :: string
  rec_size :: nat

text \<open>
  The cache holds references to objects: the records that \<open>marshal\<close> stores, and the
  response objects that the file handler stores, named by their address.
\<close>

datatype cache_value = Record data_record | Descriptor nat

datatype event =
    Generated nat
  | OpenStat jspath
  | EtagApply jspath
  | ReadFile jspath
  | Process

text \<open>
  The state of the server: the own properties of the object \<open>inMemoryCache.cache\<close> and
  the object that an assignment has made its prototype (\<open>None\<close> while it is the
  prototype of every object), the response objects by address, the next free address, and
  the calls made to the framework, the file system and the transformation engine, oldest
  first.
\<close>

record world =
  cache :: "string \<rightharpoonup> cache_value"
  cache_proto :: "cache_value option"
  heap :: "nat \<Rightarrow> response"
  next_ref :: nat
  trace :: "event list"

text \<open>
  The argument of \<open>response.etag\<close>: a string, or (when the cached value is a response
  object) that object's own \<open>etag\<close> method.
\<close>

datatype tag = TagString string | TagMethod

text \<open>
  What the code calls and does not define: the working directory, the file system
  (\<open>Fs.File.openStat\<close>, \<open>fs.promises.readFile\<close>), \<open>Etag.apply\<close> (it fails, leaves the
  \<open>etag\<close> header alone, or sets it), the transformation (\<open>postcss.process\<close>, reduced to
  the \<open>css\<close> of its result) and the header that the framework's \<open>response.etag\<close> writes
  for a tag.
\<close>

record env =
  cwd :: string
  openStat :: "jspath \<Rightarrow> error + stat"
  etagApply :: "settings option \<Rightarrow> jspath \<Rightarrow> stat \<Rightarrow> error + string option"
  readFile :: "jspath \<Rightarrow> error + string"
  process :: "string \<Rightarrow> error + string"
  entityTag :: "tag \<Rightarrow> string"

record request =
  relativeTo :: string
  req_path :: string
  params :: "string \<rightharpoonup> string"

section \<open>The cache of \<open>index.js\<close>\<close>

text \<open>
  \<open>inMemoryCache\<close> keeps its entries as properties of a plain object that starts as
  \<open>{}\<close>. \<open>get(key)\<close> is
  \<open>this.cache.hasOwnProperty(key) ? this.cache[key] : null\<close>: once a value has been
  stored under the key \<open>hasOwnProperty\<close>, that value hides the method, and since every
  stored value is an object and no function, every \<open>get\<close> throws. \<open>set(key, data)\<close> is
  \<open>this.cache[key] = data\<close>: for the key \<open>__proto__\<close> the assignment makes \<open>data\<close> the
  prototype of the cache object and creates no property, so a later \<open>get\<close> of that key
  finds nothing. No code reads the prototype; every stored value is a record or a
  response object, neither of which defines \<open>hasOwnProperty\<close>.
\<close>

definition cache_get :: "(string \<rightharpoonup> cache_value) \<Rightarrow> string \<Rightarrow> error + cache_value option" where
  "cache_get c key =
     (case c ''hasOwnProperty'' of
        Some shadow \<Rightarrow> Inl (Thrown ''TypeError: this.cache.hasOwnProperty is not a function'')
      | None \<Rightarrow> Inr (c key))"

definition cache_set :: "string \<Rightarrow> cache_value \<Rightarrow> world \<Rightarrow> world" where
  "cache_set key v w =
     (if key = ''__proto__'' then w\<lparr>cache_proto := Some v\<rparr>
      else w\<lparr>cache := (cache w)(key \<mapsto> v)\<rparr>)"

section \<open>The response API of the framework\<close>

definition emit :: "event \<Rightarrow> world \<Rightarrow> world" where
  "emit e w = w\<lparr>trace := trace w @ [e]\<rparr>"

definition store :: "nat \<Rightarrow> response \<Rightarrow> world \<Rightarrow> world" where
  "store r resp w = w\<lparr>heap := (heap w)(r := resp)\<rparr>"

definition no_headers :: headers where
  "no_headers = \<lparr>h_content_type = None, h_last_modified = None, h_etag = None,
     h_content_length = None\<rparr>"

definition generateResponse :: "source \<Rightarrow> bool \<Rightarrow> world \<Rightarrow> nat \<times> world" where
  "generateResponse src prep w =
     (let r = next_ref w
      in (r, w\<lparr>heap := (heap w)(r := \<lparr>source = src, headers = no_headers, has_prepare = prep\<rparr>),
               next_ref := Suc r,
               trace := trace w @ [Generated r]\<rparr>))"

definition set_type :: "string \<Rightarrow> response \<Rightarrow> response" where
  "set_type t resp = resp\<lparr>headers := (headers resp)\<lparr>h_content_type := Some t\<rparr>\<rparr>"

definition set_last_modified :: "string option \<Rightarrow> response \<Rightarrow> response" where
  "set_last_modified v resp = resp\<lparr>headers := (headers resp)\<lparr>h_last_modified := v\<rparr>\<rparr>"

definition set_etag :: "env \<Rightarrow> tag \<Rightarrow> response \<Rightarrow> response" where
  "set_etag env t resp = resp\<lparr>headers := (headers resp)\<lparr>h_etag := Some (entityTag env t)\<rparr>\<rparr>"

definition bytes :: "number \<Rightarrow> response \<Rightarrow> response" where
  "bytes n resp = resp\<lparr>headers := (headers resp)\<lparr>h_content_length := Some n\<rparr>\<rparr>"

section \<open>The file module\<close>

subsection \<open>\<open>exports.response\<close>, also \<open>exports.fileResponse\<close>\<close>

text \<open>
  The path of the source, lines 69 to 79. \<open>path.lastIndexOf(confineDir, 0) !== 0\<close> holds
  exactly when the text of \<open>path\<close> does not start with the text of \<open>confineDir\<close>.
\<close>

definition resolvedPath :: "env \<Rightarrow> request \<Rightarrow> settings \<Rightarrow> string \<Rightarrow> jspath" where
  "resolvedPath env req options path =
     (case opt_confine options of
        Some confine \<Rightarrow>
          if confine \<noteq> [] then
            let confineDir = resolve (cwd env) (relativeTo req) confine;
                p = (if isAbsolute path then normalize path else join confineDir path)
            in if \<not> prefix confineDir p then PNull else PString p
          else PString (if isAbsolute path then normalize path else join (relativeTo req) path)
      | None \<Rightarrow> PString (if isAbsolute path then normalize path else join (relativeTo req) path))"

text \<open>
  The assertion of line 67:
  \<open>!options.mode || ['attachment', 'inline'].indexOf(options.mode) !== -1\<close>.
\<close>

definition validMode :: "settings \<Rightarrow> bool" where
  "validMode options =
     (if truthy (opt_mode options)
      then opt_mode options = Some ''attachment'' \<or> opt_mode options = Some ''inline''
      else True)"

definition fileResponse ::
  "env \<Rightarrow> request \<Rightarrow> string \<Rightarrow> settings \<Rightarrow> bool \<Rightarrow> world \<Rightarrow> (error + nat) \<times> world" where
  "fileResponse env req path options preloaded w =
     (if \<not> validMode options
      then (Inl (Thrown ''options.mode must be either false, attachment, or inline''), w)
      else
        let src = \<lparr>src_path = resolvedPath env req options path,
                   src_settings = Some options, src_stat = None, src_file = None\<rparr>;
            (r, w') = generateResponse src (\<not> preloaded) w
        in (Inr r, w'))"

subsection \<open>\<open>internals.prepare\<close>\<close>

text \<open>
  The module starts from \<open>const internals = {}\<close> and assigns \<open>defaultMap\<close>, \<open>schema\<close>,
  \<open>prepare\<close>, \<open>marshal\<close>, \<open>addContentRange\<close> and \<open>processCSS\<close> to it. It never assigns
  \<open>close\<close>, so the call \<open>internals.close(response)\<close> in the \<open>catch\<close> block of
  \<open>prepare\<close> calls \<open>undefined\<close>: it throws a \<open>TypeError\<close> and touches nothing.
\<close>

definition internals_close :: "nat \<Rightarrow> world \<Rightarrow> (error + unit) \<times> world" where
  "internals_close r w = (Inl (Thrown ''TypeError: internals.close is not a function''), w)"

text \<open>The \<open>catch\<close> block of \<open>prepare\<close>: \<open>internals.close(response); throw err\<close>.\<close>

definition prepare_catch :: "error \<Rightarrow> nat \<Rightarrow> world \<Rightarrow> (error + nat) \<times> world" where
  "prepare_catch err r w =
     (case internals_close r w of
        (Inl e, w') \<Rightarrow> (Inl e, w')
      | (Inr _, w') \<Rightarrow> (Inl err, w'))"

text \<open>
  What \<open>prepare\<close> reads from a cached value that it found. A response object has no
  \<open>mtime\<close>, and its \<open>etag\<close> is a method, which is truthy.
\<close>

fun cached_mtime :: "cache_value \<Rightarrow> string option" where
  "cached_mtime (Record d) = rec_mtime d"
| "cached_mtime (Descriptor _) = None"

fun cached_etag :: "cache_value \<Rightarrow> tag option" where
  "cached_etag (Record d) = (if truthy (rec_etag d) then map_option TagString (rec_etag d) else None)"
| "cached_etag (Descriptor _) = Some TagMethod"

text \<open>
  \<open>prepare\<close> works on the response object at address \<open>r\<close>. The file object it makes
  holds an open descriptor once \<open>openStat\<close> has returned, and none when \<open>openStat\<close>
  has failed. Nothing in this module closes the descriptor. \<open>cache.get\<close> is called
  outside the \<open>try\<close> block, so what it throws leaves \<open>prepare\<close> as it is.
  \<open>prepare\<close> is suspended while it awaits \<open>openStat\<close> and \<open>Etag.apply\<close>; it reads the
  cache once, before the first of them, and never writes it, so the function is kept in
  one piece.
\<close>

definition prepare :: "env \<Rightarrow> nat \<Rightarrow> world \<Rightarrow> (error + nat) \<times> world" where
  "prepare env r w =
     (let resp = heap w r; path = src_path (source resp)
      in if path = PNull then (Inl (forbidden ''EACCES''), w)
         else
           (case cache_get (cache w) (key_of path) of
              Inl thrown \<Rightarrow> (Inl thrown, w)
            | Inr (Some cached) \<Rightarrow>
                (let resp1 = (if \<not> truthy (h_content_type (headers resp))
                              then set_type ''text/css'' resp else resp);
                     resp2 = (if truthy (cached_mtime cached)
                              then set_last_modified (cached_mtime cached) resp1 else resp1);
                     resp3 = (case cached_etag cached of
                                Some t \<Rightarrow> set_etag env t resp2
                              | None \<Rightarrow> resp2)
                 in (Inr r, store r resp3 w))
            | Inr None \<Rightarrow>
                (let resp1 = resp\<lparr>source := (source resp)\<lparr>src_file := Some (File path False)\<rparr>\<rparr>;
                     w1 = emit (OpenStat path) w
                 in (case openStat env path of
                       Inl err \<Rightarrow> prepare_catch err r (store r resp1 w1)
                     | Inr st \<Rightarrow>
                         (let resp2 = resp1\<lparr>source :=
                                (source resp1)\<lparr>src_file := Some (File path True)\<rparr>\<rparr>;
                              resp3 = (if \<not> truthy (h_content_type (headers resp2))
                                       then set_type ''text/css'' resp2 else resp2);
                              resp4 = set_last_modified (Some (stat_mtime st)) resp3;
                              w2 = emit (EtagApply path) w1
                          in (case etagApply env (src_settings (source resp4)) path st of
                                Inl err \<Rightarrow> prepare_catch err r (store r resp4 w2)
                              | Inr tagged \<Rightarrow>
                                  (Inr r, store r (case tagged of
                                                    None \<Rightarrow> resp4
                                                  | Some v \<Rightarrow> resp4\<lparr>headers :=
                                                      (headers resp4)\<lparr>h_etag := Some v\<rparr>\<rparr>) w2)))))))"

subsection \<open>\<open>internals.processCSS\<close> and \<open>internals.marshal\<close>\<close>

text \<open>
  The lines that both branches of \<open>marshal\<close> share, 148 to 153 and 162 to 167: they read
  \<open>response.source.settings.start\<close>, which throws when the source has no settings, and
  compute \<open>end - start + 1\<close> or \<open>size - start\<close> in doubles.
\<close>

definition setBytes :: "nat \<Rightarrow> nat \<Rightarrow> world \<Rightarrow> (error + unit) \<times> world" where
  "setBytes r sz w =
     (let resp = heap w r
      in (case src_settings (source resp) of
            None \<Rightarrow> (Inl (Thrown ''TypeError: Cannot read property start of undefined''), w)
          | Some st \<Rightarrow>
              (let start = (case opt_start st of None \<Rightarrow> 0 | Some s \<Rightarrow> s)
               in (case opt_end st of
                     Some e \<Rightarrow> (Inr (), store r (bytes (plusOne (difference e start)) resp) w)
                   | None \<Rightarrow> (Inr (), store r (bytes (difference (int sz) start) resp) w)))))"

definition empty_source :: source where
  "empty_source = \<lparr>src_path = PUndefined, src_settings = None, src_stat = None, src_file = None\<rparr>"

definition clear_source :: "nat \<Rightarrow> world \<Rightarrow> world" where
  "clear_source r w = store r ((heap w r)\<lparr>source := empty_source\<rparr>) w"

fun full_record :: "cache_value option \<Rightarrow> data_record option" where
  "full_record (Some (Record d)) = Some d"
| "full_record _ = None"

text \<open>
  \<open>marshal\<close> is suspended twice when it misses the cache: \<open>processCSS\<close> awaits
  \<open>fs.promises.readFile\<close> and then \<open>postcss.process\<close>, and other requests run in the
  meantime. So \<open>marshal\<close> comes in three pieces. \<open>marshalStart\<close> runs from line 142 to the
  call of \<open>readFile\<close>: on a full record (\<open>cached && cached.data\<close>, which holds for a
  record that \<open>marshal\<close> stored and for nothing else) it finishes at once; on a miss it
  has read \<open>data.mtime\<close> and \<open>data.etag\<close> from the headers and is left \<open>Reading\<close>, with
  the response, the path and these two values in hand. \<open>marshalRead\<close> runs when the file
  has been read, and calls the transformation. \<open>marshalFinish\<close> runs when the css is
  there: it stores the record under the path, whatever the cache holds by then, sets the
  byte length, empties the source and returns the css. The length of the css is counted
  in characters of the string.
\<close>

datatype reading = Reading nat jspath "string option" "string option"

datatype processing = Processing nat jspath "string option" "string option" string

definition marshalStart :: "nat \<Rightarrow> world \<Rightarrow> ((error + string) + reading) \<times> world" where
  "marshalStart r w =
     (let path = src_path (source (heap w r))
      in (case cache_get (cache w) (key_of path) of
            Inl thrown \<Rightarrow> (Inl (Inl thrown), w)
          | Inr found \<Rightarrow>
              (case full_record found of
                 Some cached \<Rightarrow>
                   (let w1 = store r (set_last_modified (rec_mtime cached) (heap w r)) w
                    in (case setBytes r (rec_size cached) w1 of
                          (Inl err, w2) \<Rightarrow> (Inl (Inl err), w2)
                        | (Inr _, w2) \<Rightarrow> (Inl (Inr (rec_data cached)), clear_source r w2)))
               | None \<Rightarrow>
                   (Inr (Reading r path (h_last_modified (headers (heap w r)))
                           (h_etag (headers (heap w r)))),
                    emit (ReadFile path) w))))"

fun marshalRead :: "env \<Rightarrow> reading \<Rightarrow> world \<Rightarrow> (error + processing) \<times> world" where
  "marshalRead env (Reading r path mt et) w =
     (case readFile env path of
        Inl err \<Rightarrow> (Inl err, w)
      | Inr raw \<Rightarrow> (Inr (Processing r path mt et raw), emit Process w))"

fun marshalFinish :: "env \<Rightarrow> processing \<Rightarrow> world \<Rightarrow> (error + string) \<times> world" where
  "marshalFinish env (Processing r path mt et raw) w =
     (case process env raw of
        Inl err \<Rightarrow> (Inl err, w)
      | Inr css \<Rightarrow>
          (let d = \<lparr>rec_mtime = mt, rec_etag = et, rec_data = css, rec_size = length css\<rparr>;
               w2 = cache_set (key_of path) (Record d) w
           in (case setBytes r (rec_size d) w2 of
                 (Inl err, w3) \<Rightarrow> (Inl err, w3)
               | (Inr _, w3) \<Rightarrow> (Inr (rec_data d), clear_source r w3))))"

text \<open>A suspended \<open>marshal\<close> taken to its end with nothing else in between.\<close>

definition marshalResume :: "env \<Rightarrow> reading \<Rightarrow> world \<Rightarrow> (error + string) \<times> world" where
  "marshalResume env pending w =
     (case marshalRead env pending w of
        (Inl err, w1) \<Rightarrow> (Inl err, w1)
      | (Inr p, w1) \<Rightarrow> marshalFinish env p w1)"

text \<open>\<open>marshal\<close> when nothing else runs while it is suspended.\<close>

definition marshal :: "env \<Rightarrow> nat \<Rightarrow> world \<Rightarrow> (error + string) \<times> world" where
  "marshal env r w =
     (case marshalStart r w of
        (Inl res, w1) \<Rightarrow> (res, w1)
      | (Inr pending, w1) \<Rightarrow> marshalResume env pending w1)"

subsection \<open>\<open>exports.load\<close> and the handler that \<open>exports.fileHandler\<close> returns\<close>

definition load ::
  "env \<Rightarrow> request \<Rightarrow> string \<Rightarrow> settings \<Rightarrow> world \<Rightarrow> (error + nat) \<times> world" where
  "load env req path options w =
     (case fileResponse env req path options True w of
        (Inl err, w') \<Rightarrow> (Inl err, w')
      | (Inr r, w') \<Rightarrow> prepare env r w')"

datatype path_option = PathString string | PathFunction "request \<Rightarrow> string"

text \<open>\<open>typeof settings.path === 'function' ? settings.path(request) : settings.path\<close>\<close>

definition configuredPath :: "path_option \<Rightarrow> request \<Rightarrow> string" where
  "configuredPath configured req =
     (case configured of PathFunction f \<Rightarrow> f req | PathString s \<Rightarrow> s)"

definition handler ::
  "env \<Rightarrow> path_option \<Rightarrow> settings \<Rightarrow> request \<Rightarrow> world \<Rightarrow> (error + cache_value) \<times> world" where
  "handler env configured options req w =
     (let path = configuredPath configured req
      in case cache_get (cache w) path of
           Inl thrown \<Rightarrow> (Inl thrown, w)
         | Inr (Some cached) \<Rightarrow> (Inr cached, w)
         | Inr None \<Rightarrow>
             (case fileResponse env req path options False w of
                (Inl err, w') \<Rightarrow> (Inl err, w')
              | (Inr r, w') \<Rightarrow> (Inr (Descriptor r), cache_set path (Descriptor r) w')))"

section \<open>The directory module\<close>

datatype path_result = RError error | RString string | RArray "string list" | ROther

fun resolvePathOption :: "path_result \<Rightarrow> error + string list" where
  "resolvePathOption (RError e) = Inl e"
| "resolvePathOption (RString s) = Inr [s]"
| "resolvePathOption (RArray a) = Inr a"
| "resolvePathOption ROther = Inl internal"

text \<open>
  \<open>isFileHidden\<close> tests the expression \<open>(^|[\\/])\.([^.\\/]|\.[^\\/])\<close>: a dot at the start
  or after a separator, followed by a character that is no dot and no separator, or by a
  dot and a character that is no separator. \<open>boundary\<close> says that the position read is the
  start of the text or follows a separator.
\<close>

definition isSlash :: "char \<Rightarrow> bool" where
  "isSlash c = (c = CHR ''/'' \<or> c = CHR 0x5C)"

fun hiddenFrom :: "bool \<Rightarrow> string \<Rightarrow> bool" where
  "hiddenFrom boundary [] = False"
| "hiddenFrom boundary (c # cs) =
     (if boundary \<and> c = CHR ''.'' \<and>
         (case cs of
            [] \<Rightarrow> False
          | d # ds \<Rightarrow>
              if d = CHR ''.'' then (case ds of [] \<Rightarrow> False | e # _ \<Rightarrow> \<not> isSlash e)
              else \<not> isSlash d)
      then True
      else hiddenFrom (isSlash c) cs)"

definition isFileHidden :: "string \<Rightarrow> bool" where
  "isFileHidden path = hiddenFrom True path"

datatype directory_path = DirArray "string list" | DirFunction "request \<Rightarrow> path_result"

record directory_settings =
  dir_path :: directory_path
  showHidden :: bool
  dir_etagMethod :: "etag_method option"
  defaultExtension :: "string option"

text \<open>
  \<open>each\<close> and the loop over the candidates take the loader as a parameter: the handler
  runs them with \<open>File.load\<close>. \<open>Bounce.ignore(err, 'boom')\<close> rethrows an error that is not
  a Boom error.
\<close>

definition each ::
  "(string \<Rightarrow> settings \<Rightarrow> 'w \<Rightarrow> (error + 'a) \<times> 'w) \<Rightarrow> directory_settings \<Rightarrow> bool \<Rightarrow>
   string option \<Rightarrow> string \<Rightarrow> 'w \<Rightarrow> (error + 'a) \<times> 'w" where
  "each loader settings hasTrailingSlash selection baseDir w =
     (let fileOptions = \<lparr>opt_confine = Some baseDir, opt_mode = None,
                          opt_etagMethod = dir_etagMethod settings,
                          opt_start = None, opt_end = None\<rparr>;
          path = orEmpty selection
      in (case loader path fileOptions w of
            (Inr resp, w') \<Rightarrow> (Inr resp, w')
          | (Inl err, w') \<Rightarrow>
              if \<not> isBoom err then (Inl err, w')
              else if isNotFound err then
                (if \<not> truthy (defaultExtension settings) then (Inl err, w')
                 else
                   let path' = (if hasTrailingSlash then butlast path else path)
                   in loader (path' @ ''.'' @ orEmpty (defaultExtension settings)) fileOptions w')
              else (Inl err, w')))"

text \<open>The loop of lines 104 to 120; \<open>i === paths.length - 1\<close> is \<open>ps = []\<close>.\<close>

fun tryPaths ::
  "(string \<Rightarrow> 'w \<Rightarrow> (error + 'a) \<times> 'w) \<Rightarrow> string list \<Rightarrow> 'w \<Rightarrow> (error + 'a) \<times> 'w" where
  "tryPaths f [] w = (Inl notFound, w)"
| "tryPaths f (p # ps) w =
     (case f p w of
        (Inr resp, w') \<Rightarrow> (Inr resp, w')
      | (Inl err, w') \<Rightarrow>
          if \<not> isBoom err then (Inl err, w')
          else if \<not> isNotFound err then (Inl err, w')
          else if ps = [] then (Inl err, w')
          else tryPaths f ps w')"

text \<open>
  The handler that \<open>exports.handler\<close> returns. \<open>paramName\<close> is the name of the last
  parameter of the route, found when the route is set up.
\<close>

definition directoryHandler ::
  "env \<Rightarrow> directory_settings \<Rightarrow> string \<Rightarrow> request \<Rightarrow> world \<Rightarrow> (error + nat) \<times> world" where
  "directoryHandler env settings paramName req w =
     (case (case dir_path settings of
              DirArray a \<Rightarrow> Inr a
            | DirFunction f \<Rightarrow> resolvePathOption (f req)) of
        Inl err \<Rightarrow> (Inl err, w)
      | Inr paths \<Rightarrow>
          (let selection = params req paramName
           in if truthy selection \<and> \<not> showHidden settings \<and> isFileHidden (orEmpty selection)
              then (Inl notFound, w)
              else
                let hasTrailingSlash = (req_path req \<noteq> [] \<and> last (req_path req) = sep)
                in tryPaths (each (load env req) settings hasTrailingSlash selection) paths w))"

text \<open>
  \<open>skipped f ps w\<close> is the state after the candidates \<open>ps\<close> were tried in order from
  \<open>w\<close> and each one failed with a not-found error; \<open>None\<close> when one of them did
  anything else.
\<close>

fun skipped ::
  "(string \<Rightarrow> 'w \<Rightarrow> (error + 'a) \<times> 'w) \<Rightarrow> string list \<Rightarrow> 'w \<Rightarrow> 'w option" where
  "skipped f [] w = Some w"
| "skipped f (p # ps) w =
     (case f p w of
        (Inr resp, w') \<Rightarrow> None
      | (Inl err, w') \<Rightarrow> if isBoom err \<and> isNotFound err then skipped f ps w' else None)"

section \<open>Safe ranges\<close>

text \<open>
  The numbers that a byte length is computed from are within the safe range when
  \<open>start\<close> (0 when it is not set) is a safe integer and, when \<open>end\<close> is set, \<open>end\<close> and
  \<open>end - start\<close> are safe integers, and when it is not, the size and \<open>size - start\<close> are.
\<close>

definition safeRange :: "settings \<Rightarrow> nat \<Rightarrow> bool" where
  "safeRange st sz =
     (let start = (case opt_start st of None \<Rightarrow> 0 | Some s \<Rightarrow> s)
      in isSafeInteger start \<and>
         (case opt_end st of
            Some e \<Rightarrow> isSafeInteger e \<and> isSafeInteger (e - start)
          | None \<Rightarrow> isSafeInteger (int sz) \<and> isSafeInteger (int sz - start)))"

section \<open>Sequences of calls\<close>

text \<open>
  The entry points of the two modules, as the framework calls them on one server, each
  with the file system of its moment. In a list of calls none starts before the one before
  it has returned.
\<close>

datatype operation =
    OpFileResponse request string settings bool
  | OpPrepare nat
  | OpMarshal nat
  | OpLoad request string settings
  | OpHandler path_option settings request
  | OpDirectoryHandler directory_settings string request

fun run :: "env \<Rightarrow> operation \<Rightarrow> world \<Rightarrow> world" where
  "run env (OpFileResponse req path options preloaded) w =
     snd (fileResponse env req path options preloaded w)"
| "run env (OpPrepare r) w = snd (prepare env r w)"
| "run env (OpMarshal r) w = snd (marshal env r w)"
| "run env (OpLoad req path options) w = snd (load env req path options w)"
| "run env (OpHandler configured options req) w = snd (handler env configured options req w)"
| "run env (OpDirectoryHandler settings paramName req) w =
     snd (directoryHandler env settings paramName req w)"

fun runAll :: "(env \<times> operation) list \<Rightarrow> world \<Rightarrow> world" where
  "runAll [] w = w"
| "runAll ((env, op) # ops) w = runAll ops (run env op w)"

text \<open>
  A \<open>marshal\<close> that overlaps with other calls: the calls \<open>whileReading\<close> run while it
  awaits the file, the calls \<open>whileProcessing\<close> while it awaits the transformation.
\<close>

definition marshalDuring ::
  "env \<Rightarrow> nat \<Rightarrow> (env \<times> operation) list \<Rightarrow> (env \<times> operation) list \<Rightarrow> world \<Rightarrow>
   (error + string) \<times> world" where
  "marshalDuring env r whileReading whileProcessing w =
     (case marshalStart r w of
        (Inl res, w1) \<Rightarrow> (res, w1)
      | (Inr pending, w1) \<Rightarrow>
          (case marshalRead env pending (runAll whileReading w1) of
             (Inl err, w2) \<Rightarrow> (Inl err, w2)
           | (Inr p, w2) \<Rightarrow> marshalFinish env p (runAll whileProcessing w2)))"

text \<open>The file handler called for one request after another, with the results in order.\<close>

fun handlerRuns ::
  "env \<Rightarrow> path_option \<Rightarrow> settings \<Rightarrow> request list \<Rightarrow> world \<Rightarrow>
   (error + cache_value) list \<times> world" where
  "handlerRuns env configured options [] w = ([], w)"
| "handlerRuns env configured options (req # reqs) w =
     (case handler env configured options req w of
        (res, w') \<Rightarrow>
          (case handlerRuns env configured options reqs w' of
             (results, w'') \<Rightarrow> (res # results, w'')))"

fun isGenerated :: "event \<Rightarrow> bool" where
  "isGenerated (Generated _) = True"
| "isGenerated _ = False"

text \<open>How many responses \<open>request.generateResponse\<close> has built so far.\<close>

definition generated :: "world \<Rightarrow> nat" where
  "generated w = length (filter isGenerated (trace w))"

section \<open>Containment, as the comment of line 73 asks for it\<close>

text \<open>
  ``Verify that resolved path is within confineDir'': a path is within a directory when
  the segments of the directory are the first segments of the path.
\<close>

definition segments :: "string \<Rightarrow> string list" where
  "segments path = filter (\<lambda>s. s \<noteq> []) (split_sep path)"

definition within :: "string \<Rightarrow> string \<Rightarrow> bool" where
  "within dir path = prefix (segments dir) (segments path)"

section \<open>A server to run the code on\<close>

text \<open>
  A route with \<open>relativeTo = /srv\<close>, a file system that holds \<open>/srv/css/styles.css\<close>
  and \<open>/srv/css/site.css\<close> only, an \<open>Etag.apply\<close> that sets the header to the tag
  \<open>5-abc\<close> in quotes, a \<open>response.etag\<close> that puts its tag in quotes, the identity as
  transformation, and a server that has served nothing yet.
\<close>

definition siteStat :: stat where
  "siteStat = \<lparr>stat_mtime = ''Mon, 02 Nov 2026 10:00:00 GMT'', stat_size = 12\<rparr>"

definition present :: "jspath \<Rightarrow> bool" where
  "present p = (p = PString ''/srv/css/styles.css'' \<or> p = PString ''/srv/css/site.css'')"

definition quoted :: "tag \<Rightarrow> string" where
  "quoted t = (case t of TagString s \<Rightarrow> CHR 0x22 # s @ [CHR 0x22] | TagMethod \<Rightarrow> ''function'')"

definition siteEnv :: env where
  "siteEnv =
     \<lparr>cwd = ''/home/node'',
      openStat = (\<lambda>p. if present p then Inr siteStat else Inl notFound),
      etagApply = (\<lambda>options p st. Inr (Some (quoted (TagString ''5-abc'')))),
      readFile = (\<lambda>p. if present p then Inr ''a { color: red }'' else Inl notFound),
      process = (\<lambda>raw. Inr raw),
      entityTag = quoted\<rparr>"

text \<open>The same server when \<open>Etag.apply\<close> fails after the file was opened.\<close>

definition failingEtagEnv :: env where
  "failingEtagEnv = siteEnv\<lparr>etagApply := (\<lambda>options p st. Inl (Boom 500 []))\<rparr>"

definition siteRequest :: request where
  "siteRequest = \<lparr>relativeTo = ''/srv'', req_path = ''/assets/styles'',
     params = [''file'' \<mapsto> ''styles'']\<rparr>"

definition cssOptions :: settings where
  "cssOptions = \<lparr>opt_confine = Some ''css'', opt_mode = None, opt_etagMethod = None,
     opt_start = None, opt_end = None\<rparr>"

definition freshWorld :: world where
  "freshWorld =
     \<lparr>cache = Map.empty,
      cache_proto = None,
      heap = (\<lambda>_. \<lparr>source = empty_source, headers = no_headers, has_prepare = False\<rparr>),
      next_ref = 0,
      trace = []\<rparr>"

definition cssDirectory :: directory_settings where
  "cssDirectory = \<lparr>dir_path = DirArray [''css''], showHidden = False,
     dir_etagMethod = None, defaultExtension = Some ''css''\<rparr>"

text \<open>The server after \<open>exports.response\<close> was asked for a path outside every root.\<close>

definition deniedWorld :: world where
  "deniedWorld =
     snd (fileResponse siteEnv siteRequest ''../../etc/passwd'' cssOptions True freshWorld)"

text \<open>
  The server after a first request for \<open>site.css\<close> was prepared, and after it was
  marshalled as well.
\<close>

definition preparedWorld :: world where
  "preparedWorld = snd (load siteEnv siteRequest ''site.css'' cssOptions freshWorld)"

definition servedWorld :: world where
  "servedWorld = snd (marshal siteEnv 0 preparedWorld)"

text \<open>The record that the first request for \<open>site.css\<close> leaves in the cache.\<close>

definition siteRecord :: data_record where
  "siteRecord =
     \<lparr>rec_mtime = Some ''Mon, 02 Nov 2026 10:00:00 GMT'',
      rec_etag = Some (quoted (TagString ''5-abc'')),
      rec_data = ''a { color: red }'',
      rec_size = 16\<rparr>"

text \<open>The file system after \<open>site.css\<close> was edited.\<close>

definition editedEnv :: env where
  "editedEnv = siteEnv
     \<lparr>openStat := (\<lambda>p. if present p
                        then Inr \<lparr>stat_mtime = ''Tue, 03 Nov 2026 08:30:00 GMT'', stat_size = 15\<rparr>
                        else Inl notFound),
      readFile := (\<lambda>p. if present p then Inr ''b { margin: 0 }'' else Inl notFound)\<rparr>"

text \<open>A second response for \<open>site.css\<close>, with a range, built on the server that has served it.\<close>

definition rangeOptions :: settings where
  "rangeOptions = cssOptions\<lparr>opt_start := Some 2, opt_end := Some 9\<rparr>"

definition secondWorld :: world where
  "secondWorld = runAll [(editedEnv, OpFileResponse siteRequest ''site.css'' rangeOptions False)]
     servedWorld"

text \<open>
  A file handler whose configured path is absolute and normalized, so that the configured
  path and the resolved path are the same text: the calls of one full request.
\<close>

definition absoluteRequest :: "(env \<times> operation) list" where
  "absoluteRequest =
     [(siteEnv, OpHandler (PathString ''/srv/css/site.css'') cssOptions siteRequest),
      (siteEnv, OpPrepare 0),
      (siteEnv, OpMarshal 0)]"

text \<open>
  The calls of one full request through a file handler configured with the relative path
  \<open>site.css\<close>.
\<close>

definition handlerRequest :: "(env \<times> operation) list" where
  "handlerRequest =
     [(siteEnv, OpHandler (PathString ''site.css'') cssOptions siteRequest),
      (siteEnv, OpPrepare 0),
      (siteEnv, OpMarshal 0)]"

text \<open>
  A route that is not confined and resolves against the working directory, a file system
  that has every file, and two full requests for the file \<open>__proto__\<close>.
\<close>

definition looseOptions :: settings where
  "looseOptions = cssOptions\<lparr>opt_confine := None\<rparr>"

definition looseRequest :: request where
  "looseRequest = siteRequest\<lparr>relativeTo := ''.''\<rparr>"

definition fullEnv :: env where
  "fullEnv = siteEnv\<lparr>openStat := (\<lambda>p. Inr siteStat), readFile := (\<lambda>p. Inr ''a { color: red }'')\<rparr>"

definition protoRequests :: "(env \<times> operation) list" where
  "protoRequests =
     [(fullEnv, OpLoad looseRequest ''__proto__'' looseOptions),
      (fullEnv, OpMarshal 0),
      (fullEnv, OpLoad looseRequest ''__proto__'' looseOptions),
      (fullEnv, OpMarshal 1)]"

text \<open>
  A directory handler with two candidates, of which only the second, \<open>css\<close>, has the
  file \<open>site.css\<close>, and the same handler with that candidate alone.
\<close>

definition twoDirectories :: directory_settings where
  "twoDirectories = \<lparr>dir_path = DirArray [''other'', ''css''], showHidden = False,
     dir_etagMethod = None, defaultExtension = None\<rparr>"

definition oneDirectory :: directory_settings where
  "oneDirectory = twoDirectories\<lparr>dir_path := DirArray [''css'']\<rparr>"

definition siteCssRequest :: request where
  "siteCssRequest = \<lparr>relativeTo = ''/srv'', req_path = ''/assets/site.css'',
     params = [''file'' \<mapsto> ''site.css'']\<rparr>"

text \<open>
  A range that \<open>h.css\<close> accepts (\<open>start <= end\<close>) and the schema of the handler would
  not: \<open>end\<close> is \<open>2^53\<close>. The server after a request with it was prepared.
\<close>

definition hugeOptions :: settings where
  "hugeOptions = cssOptions\<lparr>opt_start := Some 0, opt_end := Some 9007199254740992\<rparr>"

definition hugePrepared :: world where
  "hugePrepared = snd (load siteEnv siteRequest ''site.css'' hugeOptions freshWorld)"

text \<open>
  Two requests for \<open>site.css\<close> that overlap. The first is prepared before the file is
  edited, the second after; neither finds anything in the cache. The second starts its
  \<open>marshal\<close> and waits for the file (\<open>racePending\<close>); meanwhile the first runs its
  \<open>marshal\<close> to the end and stores its record (\<open>raceStored\<close>); then the second is resumed
  (\<open>raceEnd\<close>).
\<close>

definition racePrepared :: world where
  "racePrepared =
     runAll [(siteEnv, OpLoad siteRequest ''site.css'' cssOptions),
             (editedEnv, OpLoad siteRequest ''site.css'' cssOptions)] freshWorld"

definition racePending :: reading where
  "racePending =
     Reading 1 (PString ''/srv/css/site.css'') (Some ''Tue, 03 Nov 2026 08:30:00 GMT'')
       (Some (quoted (TagString ''5-abc'')))"

definition raceStarted :: world where
  "raceStarted = snd (marshalStart 1 racePrepared)"

definition raceStored :: world where
  "raceStored = snd (marshal editedEnv 0 raceStarted)"

definition raceEnd :: world where
  "raceEnd = snd (marshalResume editedEnv racePending raceStored)"

definition firstRecord :: data_record where
  "firstRecord =
     \<lparr>rec_mtime = Some ''Mon, 02 Nov 2026 10:00:00 GMT'',
      rec_etag = Some (quoted (TagString ''5-abc'')),
      rec_data = ''b { margin: 0 }'',
      rec_size = 15\<rparr>"

definition laterRecord :: data_record where
  "laterRecord = firstRecord\<lparr>rec_mtime := Some ''Tue, 03 Nov 2026 08:30:00 GMT''\<rparr>"

section \<open>Rounding\<close>

lemma bitLength_le: "bitLength n \<le> k \<longleftrightarrow> n < 2 ^ k"
proof (induction k arbitrary: n)
  case 0
  show ?case by (subst bitLength.simps) auto
next
  case (Suc k)
  have "bitLength n \<le> Suc k \<longleftrightarrow> n \<le> 0 \<or> bitLength (n div 2) \<le> k"
    by (subst bitLength.simps) simp
  also have "\<dots> \<longleftrightarrow> n \<le> 0 \<or> n div 2 < 2 ^ k" by (simp add: Suc.IH)
  also have "\<dots> \<longleftrightarrow> n < 2 ^ Suc k"
  proof -
    have pos: "0 < (2::int) ^ k" by simp
    have half: "n div 2 < 2 ^ k \<longleftrightarrow> n < 2 * 2 ^ k" by linarith
    from pos have low: "n \<le> 0 \<Longrightarrow> n < 2 * 2 ^ k" by linarith
    from half low show ?thesis by auto
  qed
  finally show ?case .
qed

lemma bitLength_eq: "2 ^ k \<le> n \<Longrightarrow> n < 2 ^ Suc k \<Longrightarrow> bitLength n = Suc k"
  using bitLength_le [of n k] bitLength_le [of n "Suc k"] by simp

lemma roundMagnitude_exact: "n \<le> 2 ^ 53 \<Longrightarrow> roundMagnitude n = n"
proof (cases "n < 2 ^ 53")
  case True
  then have "bitLength n \<le> 53" by (simp add: bitLength_le)
  then show ?thesis by (simp add: roundMagnitude_def)
next
  case False
  assume "n \<le> 2 ^ 53"
  with False have n: "n = 2 ^ 53" by simp
  have "bitLength n = 54"
    using bitLength_eq [of 53 n] n by simp
  with n show ?thesis by (simp add: roundMagnitude_def Let_def)
qed

text \<open>Up to \<open>2^53\<close> in magnitude an integer is a double.\<close>

lemma toDouble_exact: "\<bar>i\<bar> \<le> 2 ^ 53 \<Longrightarrow> toDouble i = Num i"
proof -
  assume b: "\<bar>i\<bar> \<le> 2 ^ 53"
  then have r: "roundMagnitude \<bar>i\<bar> = \<bar>i\<bar>" by (rule roundMagnitude_exact)
  have "(2::int) ^ 53 < 2 ^ 1024" by (rule power_strict_increasing) simp_all
  with b have "\<not> 2 ^ 1024 \<le> \<bar>i\<bar>" by linarith
  with r show ?thesis by (simp add: toDouble_def Let_def)
qed

text \<open>\<open>2^53 + 1\<close> is no double: the nearest one is \<open>2^53\<close>.\<close>

lemma toDouble_beyond: "toDouble 9007199254740993 = Num 9007199254740992"
proof -
  have "bitLength 9007199254740993 = 54"
    using bitLength_eq [of 53 9007199254740993] by simp
  then show ?thesis by (simp add: toDouble_def roundMagnitude_def Let_def)
qed

section \<open>The cache object\<close>

lemma cache_set_cache:
  "cache (cache_set key v w) = (if key = ''__proto__'' then cache w else (cache w)(key \<mapsto> v))"
  by (simp add: cache_set_def)

text \<open>What is stored under \<open>__proto__\<close> is not found again.\<close>

lemma cache_get_proto:
  "cache_get (cache (cache_set ''__proto__'' v w)) ''__proto__'' = cache_get (cache w) ''__proto__''"
  by (simp add: cache_set_def)

text \<open>After a value was stored under \<open>hasOwnProperty\<close>, every \<open>get\<close> throws.\<close>

lemma cache_get_shadowed:
  "cache_get (cache (cache_set ''hasOwnProperty'' v w)) key
     = Inl (Thrown ''TypeError: this.cache.hasOwnProperty is not a function'')"
  by (simp add: cache_set_def cache_get_def)

lemma cache_get_usable: "c ''hasOwnProperty'' = None \<Longrightarrow> cache_get c key = Inr (c key)"
  by (simp add: cache_get_def)

section \<open>Confinement\<close>

lemmas path_defs = resolve_def isAbsolute_def sep_def normalizeString_def normalize_def join_def

lemmas site_defs = siteEnv_def siteRequest_def cssOptions_def freshWorld_def present_def
  siteStat_def notFound_def validMode_def

text \<open>
  What the check of line 74 does give: the text of a confined path starts with the text
  of the confinement directory.
\<close>

lemma resolvedPath_text_prefix:
  "opt_confine options = Some confine \<Longrightarrow> confine \<noteq> [] \<Longrightarrow>
   resolvedPath env req options path = PString p \<Longrightarrow>
   prefix (resolve (cwd env) (relativeTo req) confine) p"
  by (auto simp: resolvedPath_def Let_def split: if_splits)

text \<open>
  Claim C1, which the code does not meet. The route confines to \<open>css\<close> under \<open>/srv\<close>, so
  the confinement directory is \<open>/srv/css\<close>. The absolute path
  \<open>/srv/css-private/secret.css\<close> and the relative path \<open>../css-private/secret.css\<close> are
  both resolved to \<open>/srv/css-private/secret.css\<close> and not denied: the text starts with
  \<open>/srv/css\<close>, but the file is in a sibling directory, not within \<open>/srv/css\<close>.
\<close>

theorem confine_admits_sibling_directory:
  "resolve (cwd siteEnv) (relativeTo siteRequest) ''css'' = ''/srv/css'' \<and>
   resolvedPath siteEnv siteRequest cssOptions ''/srv/css-private/secret.css''
     = PString ''/srv/css-private/secret.css'' \<and>
   resolvedPath siteEnv siteRequest cssOptions ''../css-private/secret.css''
     = PString ''/srv/css-private/secret.css'' \<and>
   \<not> within ''/srv/css'' ''/srv/css-private/secret.css''"
  by (simp add: resolvedPath_def path_defs site_defs within_def segments_def)

section \<open>Failures of \<open>prepare\<close>\<close>

lemma prepare_catch_throws:
  "prepare_catch err r w = (Inl (Thrown ''TypeError: internals.close is not a function''), w)"
  by (simp add: prepare_catch_def internals_close_def)

text \<open>
  Claim C3, which the code does not meet. The file \<open>/srv/css/site.css\<close> is there and is
  opened; \<open>Etag.apply\<close> then fails with a Boom error of status 500. The \<open>catch\<close> block
  calls \<open>internals.close\<close>, which does not exist: what the caller gets is the
  \<open>TypeError\<close> of that call, not the error of \<open>Etag.apply\<close>, and the file object of the
  response still holds its open descriptor.
\<close>

theorem prepare_failure_keeps_handle_open:
  "etagApply failingEtagEnv (Some cssOptions) (PString ''/srv/css/site.css'') siteStat
     = Inl (Boom 500 []) \<and>
   fst (load failingEtagEnv siteRequest ''site.css'' cssOptions freshWorld)
     = Inl (Thrown ''TypeError: internals.close is not a function'') \<and>
   src_file (source (heap (snd (load failingEtagEnv siteRequest ''site.css'' cssOptions freshWorld)) 0))
     = Some (File (PString ''/srv/css/site.css'') True)"
  by (simp add: load_def fileResponse_def resolvedPath_def path_defs site_defs failingEtagEnv_def
      generateResponse_def prepare_def cache_get_def emit_def store_def prepare_catch_throws
      truthy_def set_type_def set_last_modified_def no_headers_def Let_def)

text \<open>
  Whatever \<open>prepare\<close> throws, it is no not-found error: a denied path gives status 403,
  a cache that cannot be read gives a \<open>TypeError\<close>, and every failure of the file system
  or of \<open>Etag.apply\<close> ends in the \<open>TypeError\<close> of the \<open>catch\<close> block. The same holds of
  \<open>exports.load\<close>.
\<close>

lemma prepare_never_notFound:
  "fst (prepare env r w) = Inl err \<Longrightarrow> \<not> (isBoom err \<and> isNotFound err)"
  by (auto simp: prepare_def Let_def cache_get_def forbidden_def prepare_catch_throws
      split: if_splits option.splits sum.splits)

lemma load_never_notFound:
  "fst (load env req path options w) = Inl err \<Longrightarrow> \<not> (isBoom err \<and> isNotFound err)"
proof (cases "fileResponse env req path options True w")
  case (Pair res w')
  assume failed: "fst (load env req path options w) = Inl err"
  show ?thesis
  proof (cases res)
    case (Inl e)
    with Pair failed have "err = Thrown ''options.mode must be either false, attachment, or inline''"
      by (auto simp: load_def fileResponse_def Let_def split: if_splits prod.splits)
    then show ?thesis by simp
  next
    case (Inr r)
    with Pair failed have "fst (prepare env r w') = Inl err" by (simp add: load_def)
    then show ?thesis by (rule prepare_never_notFound)
  qed
qed

text \<open>When the path of the source is \<open>null\<close>, \<open>prepare\<close> throws the Boom error of status
  403 with the code \<open>EACCES\<close> and leaves the state as it was.\<close>

lemma prepare_denied_is_forbidden:
  "src_path (source (heap w r)) = PNull \<Longrightarrow> prepare env r w = (Inl (Boom 403 ''EACCES''), w)"
  by (simp add: prepare_def forbidden_def)

text \<open>
  Claim C9, which the code does not meet. A path outside the confinement directory is
  denied as the claim says: \<open>exports.load\<close> throws the Boom error of status 403 with the
  code \<open>EACCES\<close>, and nothing but the making of the response has happened. But the file
  \<open>missing.css\<close>, for which the file system answers with the not-found error, does not
  give a not-found error: \<open>prepare\<close> throws the \<open>TypeError\<close> of its \<open>catch\<close> block.
\<close>

theorem missing_file_is_not_notFound:
  "load siteEnv siteRequest ''../../etc/passwd'' cssOptions freshWorld
     = (Inl (Boom 403 ''EACCES''), deniedWorld) \<and>
   src_path (source (heap deniedWorld 0)) = PNull \<and>
   trace deniedWorld = [Generated 0] \<and>
   openStat siteEnv (PString ''/srv/css/missing.css'') = Inl (Boom 404 []) \<and>
   fst (load siteEnv siteRequest ''missing.css'' cssOptions freshWorld)
     = Inl (Thrown ''TypeError: internals.close is not a function'') \<and>
   trace (snd (load siteEnv siteRequest ''missing.css'' cssOptions freshWorld))
     = [Generated 0, OpenStat (PString ''/srv/css/missing.css'')]"
proof -
  have made: "fileResponse siteEnv siteRequest ''../../etc/passwd'' cssOptions True freshWorld
      = (Inr 0, deniedWorld)"
    by (simp add: deniedWorld_def fileResponse_def generateResponse_def site_defs truthy_def Let_def)
  have denied: "src_path (source (heap deniedWorld 0)) = PNull"
    by (simp add: deniedWorld_def fileResponse_def generateResponse_def resolvedPath_def path_defs
        site_defs truthy_def Let_def)
  have tr: "trace deniedWorld = [Generated 0]"
    by (simp add: deniedWorld_def fileResponse_def generateResponse_def site_defs truthy_def Let_def)
  from made prepare_denied_is_forbidden [OF denied, of siteEnv]
  have thrown: "load siteEnv siteRequest ''../../etc/passwd'' cssOptions freshWorld
     = (Inl (Boom 403 ''EACCES''), deniedWorld)"
    by (simp add: load_def)
  have missing: "openStat siteEnv (PString ''/srv/css/missing.css'') = Inl (Boom 404 [])"
    "fst (load siteEnv siteRequest ''missing.css'' cssOptions freshWorld)
       = Inl (Thrown ''TypeError: internals.close is not a function'')"
    "trace (snd (load siteEnv siteRequest ''missing.css'' cssOptions freshWorld))
       = [Generated 0, OpenStat (PString ''/srv/css/missing.css'')]"
    by (simp_all add: load_def fileResponse_def resolvedPath_def path_defs site_defs
        generateResponse_def prepare_def cache_get_def emit_def store_def prepare_catch_throws
        truthy_def Let_def)
  from thrown denied tr missing show ?thesis by blast
qed

section \<open>The loop over the candidate directories\<close>

lemma skipped_Cons:
  "skipped f (p # ps) w = Some w0 \<Longrightarrow>
   \<exists>err w'. f p w = (Inl err, w') \<and> isBoom err \<and> isNotFound err \<and> skipped f ps w' = Some w0"
  by (auto split: sum.splits prod.splits if_splits)

lemma tryPaths_settled:
  "skipped f pre w = Some w0 \<Longrightarrow> f d w0 = (res, w1) \<Longrightarrow>
   (case res of Inr _ \<Rightarrow> True | Inl err \<Rightarrow> \<not> (isBoom err \<and> isNotFound err)) \<Longrightarrow>
   tryPaths f (pre @ d # post) w = (res, w1)"
proof (induction pre arbitrary: w)
  case Nil
  then show ?case by (auto split: sum.splits)
next
  case (Cons p pre)
  from skipped_Cons [OF Cons.prems(1)] obtain err w'
    where step: "f p w = (Inl err, w')" "isBoom err" "isNotFound err"
      and rest: "skipped f pre w' = Some w0"
    by blast
  from Cons.IH [OF rest Cons.prems(2) Cons.prems(3)] step show ?case by simp
qed

lemma tryPaths_exhausted:
  "skipped f ps w = Some w0 \<Longrightarrow>
   \<exists>err. tryPaths f ps w = (Inl err, w0) \<and> isBoom err \<and> isNotFound err"
proof (induction ps arbitrary: w)
  case Nil
  then show ?case by (simp add: notFound_def)
next
  case (Cons p ps)
  from skipped_Cons [OF Cons.prems] obtain err w'
    where step: "f p w = (Inl err, w')" "isBoom err" "isNotFound err"
      and rest: "skipped f ps w' = Some w0"
    by blast
  show ?case
  proof (cases "ps = []")
    case True
    with rest have "w' = w0" by simp
    with step True show ?thesis by simp
  next
    case False
    from Cons.IH [OF rest] obtain e
      where "tryPaths f ps w' = (Inl e, w0)" "isBoom e" "isNotFound e" by blast
    with step False show ?thesis by simp
  qed
qed

text \<open>
  The loop as such, for any loader: the candidates are tried in the order of the list,
  each from the state the one before it left. When the candidates \<open>pre\<close> all fail with not-found and the next one,
  \<open>d\<close>, succeeds, the loop returns the result of \<open>d\<close> in the state \<open>d\<close> left, so nothing
  after \<open>d\<close> is tried. When \<open>d\<close> fails with an error that is not a not-found error, the
  loop throws that error, again in the state \<open>d\<close> left. When every candidate fails with
  not-found, the loop throws a not-found error.
\<close>

lemma tryPaths_in_order:
  "(skipped f pre w = Some w0 \<and> f d w0 = (Inr resp, w1) \<longrightarrow>
      tryPaths f (pre @ d # post) w = (Inr resp, w1)) \<and>
   (skipped f pre w = Some w0 \<and> f d w0 = (Inl err, w1) \<and> \<not> (isBoom err \<and> isNotFound err) \<longrightarrow>
      tryPaths f (pre @ d # post) w = (Inl err, w1)) \<and>
   (skipped f ps w = Some w2 \<longrightarrow>
      (\<exists>e. tryPaths f ps w = (Inl e, w2) \<and> isBoom e \<and> isNotFound e))"
proof (intro conjI impI)
  assume "skipped f pre w = Some w0 \<and> f d w0 = (Inr resp, w1)"
  then show "tryPaths f (pre @ d # post) w = (Inr resp, w1)"
    using tryPaths_settled [of f pre w w0 d "Inr resp" w1 post] by simp
next
  assume "skipped f pre w = Some w0 \<and> f d w0 = (Inl err, w1) \<and> \<not> (isBoom err \<and> isNotFound err)"
  then show "tryPaths f (pre @ d # post) w = (Inl err, w1)"
    using tryPaths_settled [of f pre w w0 d "Inl err" w1 post] by simp
next
  assume "skipped f ps w = Some w2"
  then show "\<exists>e. tryPaths f ps w = (Inl e, w2) \<and> isBoom e \<and> isNotFound e"
    by (rule tryPaths_exhausted)
qed

text \<open>
  With the loader that the handler uses, \<open>exports.load\<close>, things are different. It never
  fails with a not-found error, so \<open>each\<close> never retries and the loop never goes on: the
  handler returns or throws what the first candidate gives.
\<close>

lemma each_load:
  "each (load env req) settings slash selection baseDir w =
     load env req (orEmpty selection)
       \<lparr>opt_confine = Some baseDir, opt_mode = None,
        opt_etagMethod = dir_etagMethod settings, opt_start = None, opt_end = None\<rparr> w"
proof -
  let ?options = "\<lparr>opt_confine = Some baseDir, opt_mode = None,
        opt_etagMethod = dir_etagMethod settings, opt_start = None, opt_end = None\<rparr>"
  obtain res w' where first: "load env req (orEmpty selection) ?options w = (res, w')"
    by (cases "load env req (orEmpty selection) ?options w")
  show ?thesis
  proof (cases res)
    case (Inr r)
    with first show ?thesis by (simp add: each_def Let_def)
  next
    case (Inl err)
    with first have "fst (load env req (orEmpty selection) ?options w) = Inl err" by simp
    then have "\<not> (isBoom err \<and> isNotFound err)" by (rule load_never_notFound)
    with first Inl show ?thesis by (auto simp: each_def Let_def)
  qed
qed

lemma each_load_never_notFound:
  "fst (each (load env req) settings slash selection baseDir w) = Inl err \<Longrightarrow>
   \<not> (isBoom err \<and> isNotFound err)"
  unfolding each_load by (rule load_never_notFound)

lemma real_loader_first_candidate_only:
  "tryPaths (each (load env req) settings slash selection) (d # ps) w =
     each (load env req) settings slash selection d w"
proof (cases "each (load env req) settings slash selection d w")
  case (Pair res w')
  show ?thesis
  proof (cases res)
    case (Inr r)
    with Pair show ?thesis by simp
  next
    case (Inl err)
    with Pair have "fst (each (load env req) settings slash selection d w) = Inl err" by simp
    then have "\<not> (isBoom err \<and> isNotFound err)" by (rule each_load_never_notFound)
    with Pair Inl show ?thesis by auto
  qed
qed

lemmas handler_defs = directoryHandler_def truthy_def orEmpty_def isFileHidden_def isSlash_def
  each_def load_def fileResponse_def resolvedPath_def generateResponse_def prepare_def
  cache_get_def emit_def store_def Let_def

text \<open>
  Claim C7, which the code does not meet. The file \<open>site.css\<close> is in \<open>/srv/css\<close> and not
  in \<open>/srv/other\<close>. With \<open>css\<close> as the only candidate the handler returns the prepared
  response. With the candidates \<open>other\<close> and \<open>css\<close>, in this order, it throws the
  \<open>TypeError\<close> that \<open>prepare\<close> makes of the missing file under \<open>other\<close>, after one
  attempt to open \<open>/srv/other/site.css\<close>: \<open>css\<close> is never tried, and the first
  candidate that would succeed is not returned. And for a file that no candidate has, the
  handler throws that \<open>TypeError\<close> too, not a not-found error.
\<close>

theorem second_candidate_never_tried:
  "fst (directoryHandler siteEnv oneDirectory ''file'' siteCssRequest freshWorld) = Inr 0 \<and>
   fst (directoryHandler siteEnv twoDirectories ''file'' siteCssRequest freshWorld)
     = Inl (Thrown ''TypeError: internals.close is not a function'') \<and>
   trace (snd (directoryHandler siteEnv twoDirectories ''file'' siteCssRequest freshWorld))
     = [Generated 0, OpenStat (PString ''/srv/other/site.css'')] \<and>
   fst (directoryHandler siteEnv twoDirectories ''file''
          (siteCssRequest\<lparr>params := [''file'' \<mapsto> ''none.css'']\<rparr>) freshWorld)
     = Inl (Thrown ''TypeError: internals.close is not a function'')"
  by (simp add: handler_defs twoDirectories_def oneDirectory_def siteCssRequest_def path_defs
      site_defs prepare_catch_throws set_type_def set_last_modified_def no_headers_def)

section \<open>The default extension\<close>

text \<open>
  What \<open>each\<close> does when its loader fails with a not-found error and a default extension
  is set: it loads once more, with the extension, and the result of that is its result.
\<close>

lemma each_retries_with_extension:
  "loader (orEmpty selection) \<lparr>opt_confine = Some baseDir, opt_mode = None,
      opt_etagMethod = dir_etagMethod settings, opt_start = None, opt_end = None\<rparr> w
     = (Inl err, w') \<Longrightarrow>
   isBoom err \<Longrightarrow> isNotFound err \<Longrightarrow> truthy (defaultExtension settings) \<Longrightarrow>
   each loader settings slash selection baseDir w =
     loader ((if slash then butlast (orEmpty selection) else orEmpty selection)
               @ ''.'' @ orEmpty (defaultExtension settings))
       \<lparr>opt_confine = Some baseDir, opt_mode = None,
        opt_etagMethod = dir_etagMethod settings, opt_start = None, opt_end = None\<rparr> w'"
  by (simp add: each_def Let_def)

text \<open>
  Claim C8, which the code does not meet. The directory \<open>/srv/css\<close> holds \<open>styles.css\<close>
  and no \<open>styles\<close>; the default extension is \<open>css\<close> and the request asks for \<open>styles\<close>.
  \<open>File.load\<close> does not fail with the not-found error of the file system: the \<open>catch\<close>
  block of \<open>prepare\<close> replaces it by the \<open>TypeError\<close> of its call to \<open>internals.close\<close>,
  which \<open>Bounce.ignore\<close> rethrows. The handler throws that error after one attempt to
  open \<open>/srv/css/styles\<close>, and \<open>styles.css\<close> is never asked for.
\<close>

theorem default_extension_never_tried:
  "openStat siteEnv (PString ''/srv/css/styles'') = Inl notFound \<and>
   openStat siteEnv (PString ''/srv/css/styles.css'') = Inr siteStat \<and>
   fst (directoryHandler siteEnv cssDirectory ''file'' siteRequest freshWorld)
     = Inl (Thrown ''TypeError: internals.close is not a function'') \<and>
   trace (snd (directoryHandler siteEnv cssDirectory ''file'' siteRequest freshWorld))
     = [Generated 0, OpenStat (PString ''/srv/css/styles'')]"
  by (simp add: directoryHandler_def cssDirectory_def truthy_def orEmpty_def isFileHidden_def
      isSlash_def each_def load_def fileResponse_def resolvedPath_def path_defs site_defs
      generateResponse_def prepare_def cache_get_def emit_def store_def prepare_catch_throws Let_def)

section \<open>What the calls do to the cache\<close>

lemma tryPaths_inv:
  assumes step: "\<And>p w. P w \<Longrightarrow> P (snd (f p w))"
  shows "P w \<Longrightarrow> P (snd (tryPaths f ps w))"
proof (induction ps arbitrary: w)
  case Nil
  then show ?case by simp
next
  case (Cons p ps)
  from step [OF Cons.prems, of p] have after: "P (snd (f p w))" .
  show ?case
  proof (cases "f p w")
    case (Pair res w')
    with after have "P w'" by simp
    with Cons.IH [of w'] Pair show ?thesis
      by (auto split: sum.splits)
  qed
qed

lemma each_inv:
  assumes step: "\<And>p options w. P w \<Longrightarrow> P (snd (loader p options w))"
  shows "P w \<Longrightarrow> P (snd (each loader settings slash selection baseDir w))"
proof -
  assume start: "P w"
  let ?options = "\<lparr>opt_confine = Some baseDir, opt_mode = None,
      opt_etagMethod = dir_etagMethod settings, opt_start = None, opt_end = None\<rparr>"
  obtain res w' where first: "loader (orEmpty selection) ?options w = (res, w')"
    by (cases "loader (orEmpty selection) ?options w")
  from step [OF start, of "orEmpty selection" ?options] first have mid: "P w'" by simp
  from step [OF mid] have "\<And>p. P (snd (loader p ?options w'))" .
  with first mid show ?thesis
    by (auto simp: each_def Let_def split: sum.splits)
qed

lemma fileResponse_cache:
  "cache (snd (fileResponse env req path options preloaded w)) = cache w"
  by (simp add: fileResponse_def generateResponse_def Let_def)

lemma prepare_cache: "cache (snd (prepare env r w)) = cache w"
  by (simp add: prepare_def Let_def store_def emit_def prepare_catch_throws
      split: option.splits sum.splits)

lemma load_cache: "cache (snd (load env req path options w)) = cache w"
proof (cases "fileResponse env req path options True w")
  case (Pair res w')
  with fileResponse_cache [of env req path options True w] have "cache w' = cache w" by simp
  with Pair show ?thesis
    by (cases res) (simp_all add: load_def prepare_cache)
qed

lemma directoryHandler_cache:
  "cache (snd (directoryHandler env settings paramName req w)) = cache w"
proof -
  have loader: "\<And>p options w'. cache w' = cache w \<Longrightarrow>
      cache (snd (load env req p options w')) = cache w"
    by (simp add: load_cache)
  have one: "\<And>slash selection baseDir w'. cache w' = cache w \<Longrightarrow>
      cache (snd (each (load env req) settings slash selection baseDir w')) = cache w"
    by (rule each_inv [where P = "\<lambda>w'. cache w' = cache w"]) (simp_all add: load_cache)
  have loop: "\<And>slash selection paths.
      cache (snd (tryPaths (each (load env req) settings slash selection) paths w)) = cache w"
    by (rule tryPaths_inv [where P = "\<lambda>w'. cache w' = cache w"]) (simp_all add: one)
  show ?thesis
    by (simp add: directoryHandler_def Let_def loop split: sum.splits directory_path.splits)
qed

lemma setBytes_cache: "cache (snd (setBytes r sz w)) = cache w"
  by (simp add: setBytes_def Let_def store_def split: option.splits)

lemma setBytes_frame:
  "trace (snd (setBytes r sz w)) = trace w \<and> cache (snd (setBytes r sz w)) = cache w"
  by (simp add: setBytes_def Let_def store_def split: option.splits)

text \<open>
  \<open>marshal\<close> in one piece: what the three pieces do when nothing runs in between.
\<close>

lemma marshal_whole:
  "marshal env r w =
     (let path = src_path (source (heap w r))
      in (case cache_get (cache w) (key_of path) of
            Inl thrown \<Rightarrow> (Inl thrown, w)
          | Inr found \<Rightarrow>
              (case full_record found of
                 Some cached \<Rightarrow>
                   (let w1 = store r (set_last_modified (rec_mtime cached) (heap w r)) w
                    in (case setBytes r (rec_size cached) w1 of
                          (Inl err, w2) \<Rightarrow> (Inl err, w2)
                        | (Inr _, w2) \<Rightarrow> (Inr (rec_data cached), clear_source r w2)))
               | None \<Rightarrow>
                   (case readFile env path of
                      Inl err \<Rightarrow> (Inl err, emit (ReadFile path) w)
                    | Inr raw \<Rightarrow>
                        (case process env raw of
                           Inl err \<Rightarrow> (Inl err, emit Process (emit (ReadFile path) w))
                         | Inr css \<Rightarrow>
                             (let d = \<lparr>rec_mtime = h_last_modified (headers (heap w r)),
                                      rec_etag = h_etag (headers (heap w r)),
                                      rec_data = css, rec_size = length css\<rparr>;
                                  w2 = cache_set (key_of path) (Record d)
                                         (emit Process (emit (ReadFile path) w))
                              in (case setBytes r (rec_size d) w2 of
                                    (Inl err, w3) \<Rightarrow> (Inl err, w3)
                                  | (Inr _, w3) \<Rightarrow> (Inr (rec_data d), clear_source r w3))))))))"
  by (simp add: marshal_def marshalStart_def marshalResume_def Let_def
      split: sum.splits option.splits prod.splits)

lemma marshalDuring_alone: "marshalDuring env r [] [] w = marshal env r w"
  by (simp add: marshalDuring_def marshal_def marshalResume_def split: prod.splits sum.splits)

lemma marshal_cache:
  "cache (snd (marshal env r w)) = cache w \<or>
   (full_record (cache w (key_of (src_path (source (heap w r))))) = None \<and>
    (\<exists>css. cache (snd (marshal env r w)) =
       (cache w)(key_of (src_path (source (heap w r))) \<mapsto>
          Record \<lparr>rec_mtime = h_last_modified (headers (heap w r)),
                  rec_etag = h_etag (headers (heap w r)),
                  rec_data = css, rec_size = length css\<rparr>)))"
proof (cases "cache_get (cache w) (key_of (src_path (source (heap w r))))")
  case (Inl thrown)
  then show ?thesis by (simp add: marshal_whole)
next
  case (Inr found)
  then have found: "found = cache w (key_of (src_path (source (heap w r))))"
    by (simp add: cache_get_def split: option.splits)
  show ?thesis
  proof (cases "full_record found")
    case (Some d)
    with Inr show ?thesis
      by (simp add: marshal_whole Let_def setBytes_def store_def clear_source_def
          split: prod.splits sum.splits option.splits)
  next
    case None
    show ?thesis
    proof (cases "readFile env (src_path (source (heap w r)))")
      case (Inl err)
      with Inr None show ?thesis by (simp add: marshal_whole emit_def)
    next
      case raw: (Inr raw)
      show ?thesis
      proof (cases "process env raw")
        case (Inl err)
        with Inr None raw show ?thesis by (simp add: marshal_whole emit_def)
      next
        case css: (Inr css)
        from Inr None raw css
        have "cache (snd (marshal env r w)) =
           (if key_of (src_path (source (heap w r))) = ''__proto__'' then cache w
            else (cache w)(key_of (src_path (source (heap w r))) \<mapsto>
              Record \<lparr>rec_mtime = h_last_modified (headers (heap w r)),
                      rec_etag = h_etag (headers (heap w r)),
                      rec_data = css, rec_size = length css\<rparr>))"
          by (simp add: marshal_whole cache_set_def emit_def Let_def setBytes_def store_def
              clear_source_def split: option.splits)
        with None found show ?thesis by (cases "key_of (src_path (source (heap w r))) = ''__proto__''") auto
      qed
    qed
  qed
qed

text \<open>A \<open>marshal\<close> that is resumed writes whatever the cache holds by then.\<close>

lemma marshalFinish_cache:
  "cache (snd (marshalFinish env (Processing r path mt et raw) w)) = cache w \<or>
   (\<exists>css. cache (snd (marshalFinish env (Processing r path mt et raw) w)) =
      (cache w)(key_of path \<mapsto>
         Record \<lparr>rec_mtime = mt, rec_etag = et, rec_data = css, rec_size = length css\<rparr>))"
proof (cases "process env raw")
  case (Inl err)
  then show ?thesis by simp
next
  case (Inr css)
  then have "cache (snd (marshalFinish env (Processing r path mt et raw) w)) =
      (if key_of path = ''__proto__'' then cache w
       else (cache w)(key_of path \<mapsto>
         Record \<lparr>rec_mtime = mt, rec_etag = et, rec_data = css, rec_size = length css\<rparr>))"
    by (simp add: cache_set_def Let_def setBytes_def store_def clear_source_def
        split: option.splits)
  then show ?thesis by (cases "key_of path = ''__proto__''") auto
qed

lemma handler_cache:
  "cache (snd (handler env configured options req w)) = cache w \<or>
   (cache w (configuredPath configured req) = None \<and>
    cache (snd (handler env configured options req w)) =
      (cache w)(configuredPath configured req \<mapsto> Descriptor (next_ref w)))"
  by (simp add: handler_def cache_get_def cache_set_def fileResponse_def generateResponse_def
      Let_def split: option.splits)

lemma run_pins:
  "cache w k = Some (Record d) \<Longrightarrow> cache (run env op w) k = Some (Record d)"
proof (cases op)
  case (OpMarshal r)
  assume k: "cache w k = Some (Record d)"
  from marshal_cache [of env r w] k OpMarshal show ?thesis
    by (auto simp: fun_upd_def)
next
  case (OpHandler configured options req)
  assume k: "cache w k = Some (Record d)"
  from handler_cache [of env configured options req w] k OpHandler show ?thesis
    by (auto simp: fun_upd_def)
qed (simp_all add: fileResponse_cache prepare_cache load_cache directoryHandler_cache)

lemma runAll_pins:
  "cache w k = Some (Record d) \<Longrightarrow> cache (runAll ops w) k = Some (Record d)"
  by (induction ops arbitrary: w) (auto simp: run_pins)

text \<open>
  Claim C4 as it is written fails. On a server that has cached nothing, the file handler
  configured with \<open>site.css\<close> writes into the cache: the key is the configured path
  \<open>site.css\<close>, not the resolved path \<open>/srv/css/site.css\<close>, and the value is the response
  object, not a record.
\<close>

theorem handler_stores_descriptor_under_configured_path:
  "cache freshWorld ''site.css'' = None \<and>
   cache (snd (handler siteEnv (PathString ''site.css'') cssOptions siteRequest freshWorld))
     ''site.css'' = Some (Descriptor 0) \<and>
   resolvedPath siteEnv siteRequest cssOptions ''site.css'' = PString ''/srv/css/site.css'' \<and>
   cache (snd (handler siteEnv (PathString ''site.css'') cssOptions siteRequest freshWorld))
     ''/srv/css/site.css'' = None"
  by (simp add: handler_def configuredPath_def cache_get_def cache_set_def fileResponse_def
      generateResponse_def resolvedPath_def path_defs site_defs truthy_def Let_def)

text \<open>
  Claim C4, amended. \<open>marshal\<close> writes nothing or one value: under the path of the
  response's source, a record with all of \<open>mtime\<close>, \<open>etag\<close>, \<open>data\<close> and \<open>size\<close>, the
  size being the length of the data. The file handler writes nothing or one value: under
  the configured path, the response object it has just built. \<open>exports.response\<close>,
  \<open>prepare\<close>, \<open>exports.load\<close> and the directory handler write nothing. So no record
  without data is ever written.
\<close>

theorem cache_writes:
  "(cache (snd (marshal env r w)) = cache w \<or>
    (\<exists>css. cache (snd (marshal env r w)) =
       (cache w)(key_of (src_path (source (heap w r))) \<mapsto>
          Record \<lparr>rec_mtime = h_last_modified (headers (heap w r)),
                  rec_etag = h_etag (headers (heap w r)),
                  rec_data = css, rec_size = length css\<rparr>))) \<and>
   (cache (snd (handler env configured options req w)) = cache w \<or>
    cache (snd (handler env configured options req w)) =
      (cache w)(configuredPath configured req \<mapsto> Descriptor (next_ref w))) \<and>
   cache (snd (fileResponse env req path options preloaded w)) = cache w \<and>
   cache (snd (prepare env r w)) = cache w \<and>
   cache (snd (load env req path options w)) = cache w \<and>
   cache (snd (directoryHandler env settings paramName req w)) = cache w"
  using marshal_cache [of env r w] handler_cache [of env configured options req w]
  by (simp add: fileResponse_cache prepare_cache load_cache directoryHandler_cache) blast

section \<open>The file handler\<close>

lemma handler_cached:
  "cache w ''hasOwnProperty'' = None \<Longrightarrow> cache w (configuredPath configured req) = Some v \<Longrightarrow>
   handler env configured options req w = (Inr v, w)"
  by (simp add: handler_def cache_get_def)

lemma handlerRuns_cached:
  "\<forall>req \<in> set reqs. configuredPath configured req = p \<Longrightarrow>
   cache w ''hasOwnProperty'' = None \<Longrightarrow> cache w p = Some v \<Longrightarrow>
   handlerRuns env configured options reqs w = (replicate (length reqs) (Inr v), w)"
  by (induction reqs) (simp_all add: handler_cached)

lemma handler_invalid:
  "cache w ''hasOwnProperty'' = None \<Longrightarrow> cache w (configuredPath configured req) = None \<Longrightarrow>
   \<not> validMode options \<Longrightarrow>
   handler env configured options req w =
     (Inl (Thrown ''options.mode must be either false, attachment, or inline''), w)"
  by (simp add: handler_def cache_get_def fileResponse_def)

lemma handlerRuns_invalid:
  "\<forall>req \<in> set reqs. configuredPath configured req = p \<Longrightarrow>
   cache w ''hasOwnProperty'' = None \<Longrightarrow> cache w p = None \<Longrightarrow> \<not> validMode options \<Longrightarrow>
   handlerRuns env configured options reqs w =
     (replicate (length reqs)
        (Inl (Thrown ''options.mode must be either false, attachment, or inline'')), w)"
  by (induction reqs) (simp_all add: handler_invalid)

lemma handler_builds:
  "cache w ''hasOwnProperty'' = None \<Longrightarrow> cache w (configuredPath configured req) = None \<Longrightarrow>
   validMode options \<Longrightarrow>
   handler env configured options req w =
     (Inr (Descriptor (next_ref w)),
      cache_set (configuredPath configured req) (Descriptor (next_ref w))
        (snd (generateResponse
           \<lparr>src_path = resolvedPath env req options (configuredPath configured req),
            src_settings = Some options, src_stat = None, src_file = None\<rparr> True w)))"
  by (simp add: handler_def cache_get_def fileResponse_def generateResponse_def Let_def)

lemma generated_generateResponse:
  "generated (snd (generateResponse src prep w)) = Suc (generated w)"
  by (simp add: generated_def generateResponse_def Let_def)

lemma generateResponse_cache: "cache (snd (generateResponse src prep w)) = cache w"
  by (simp add: generateResponse_def Let_def)

text \<open>
  Called for one request after another with the same configured path, and nothing else
  in between, on a cache that can be read and with a path that is neither \<open>__proto__\<close>
  nor \<open>hasOwnProperty\<close>, the handler builds at most one response, and every call returns
  the same value: the value cached under the configured path, or the new response object,
  which it stores under the configured path.
\<close>

lemma handler_builds_once:
  assumes same: "\<forall>req \<in> set reqs. configuredPath configured req = p"
      and runs: "handlerRuns env configured options reqs w = (results, w')"
      and usable: "cache w ''hasOwnProperty'' = None"
      and plain: "p \<noteq> ''__proto__''" "p \<noteq> ''hasOwnProperty''"
  shows "\<exists>res. results = replicate (length reqs) res \<and>
           generated w' \<le> Suc (generated w) \<and>
           (\<forall>v. cache w p = Some v \<longrightarrow> res = Inr v \<and> w' = w) \<and>
           (cache w p = None \<and> reqs \<noteq> [] \<and> validMode options \<longrightarrow>
              res = Inr (Descriptor (next_ref w)) \<and>
              cache w' = (cache w)(p \<mapsto> Descriptor (next_ref w)) \<and>
              source (heap w' (next_ref w)) =
                \<lparr>src_path = resolvedPath env (hd reqs) options p,
                 src_settings = Some options, src_stat = None, src_file = None\<rparr> \<and>
              generated w' = Suc (generated w))"
proof (cases "cache w p")
  case (Some v)
  from handlerRuns_cached [OF same usable Some, of env options] runs
  have "results = replicate (length reqs) (Inr v)" "w' = w" by simp_all
  with Some show ?thesis by auto
next
  case None
  show ?thesis
  proof (cases "validMode options")
    case False
    from handlerRuns_invalid [OF same usable None False, of env] runs
    have "results = replicate (length reqs)
        (Inl (Thrown ''options.mode must be either false, attachment, or inline''))" "w' = w"
      by simp_all
    with None False show ?thesis by auto
  next
    case True
    show ?thesis
    proof (cases reqs)
      case Nil
      with runs have "results = []" "w' = w" by simp_all
      with Nil None show ?thesis by simp
    next
      case (Cons req rest)
      let ?r = "next_ref w"
      let ?src = "\<lparr>src_path = resolvedPath env req options p,
            src_settings = Some options, src_stat = None, src_file = None\<rparr>"
      let ?w1 = "cache_set p (Descriptor ?r) (snd (generateResponse ?src True w))"
      from same Cons have here: "configuredPath configured req = p"
        and later: "\<forall>req \<in> set rest. configuredPath configured req = p" by simp_all
      from handler_builds [of w configured req options env] usable None True here
      have first: "handler env configured options req w = (Inr (Descriptor ?r), ?w1)" by simp
      from plain have stored: "cache ?w1 p = Some (Descriptor ?r)" by (simp add: cache_set_def)
      from plain usable have usable1: "cache ?w1 ''hasOwnProperty'' = None"
        by (simp add: cache_set_def generateResponse_cache)
      from handlerRuns_cached [OF later usable1 stored, of env options]
      have rest_runs: "handlerRuns env configured options rest ?w1
          = (replicate (length rest) (Inr (Descriptor ?r)), ?w1)" .
      from runs Cons first rest_runs
      have res: "results = replicate (length reqs) (Inr (Descriptor ?r))" and w': "w' = ?w1"
        by simp_all
      from plain have c: "cache ?w1 = (cache w)(p \<mapsto> Descriptor ?r)"
        by (simp add: cache_set_def generateResponse_cache)
      from plain have g: "generated ?w1 = Suc (generated w)"
        by (simp add: cache_set_def generated_def generateResponse_def Let_def)
      from plain have h: "source (heap ?w1 ?r) = ?src"
        by (simp add: cache_set_def generateResponse_def Let_def)
      from res w' c g h None Cons show ?thesis by auto
    qed
  qed
qed

section \<open>Cache hits\<close>

text \<open>
  What the cache does give, for a response that still has its source: on a cache that can
  be read and holds a value for the path, \<open>prepare\<close> makes no call to the file system,
  and when the value is a full record, \<open>marshal\<close> makes none either and returns the css
  of the record.
\<close>

lemma prepare_hit:
  assumes "src_path (source (heap w r)) = PString p" and "cache w p = Some v"
    and "cache w ''hasOwnProperty'' = None"
  shows "prepare env r w =
    (Inr r, store r
       ((heap w r)\<lparr>headers := (headers (heap w r))
          \<lparr>h_content_type :=
             (if truthy (h_content_type (headers (heap w r)))
              then h_content_type (headers (heap w r)) else Some ''text/css''),
           h_last_modified :=
             (if truthy (cached_mtime v) then cached_mtime v
              else h_last_modified (headers (heap w r))),
           h_etag :=
             (case cached_etag v of
                Some t \<Rightarrow> Some (entityTag env t)
              | None \<Rightarrow> h_etag (headers (heap w r)))\<rparr>\<rparr>) w)"
  using assms
  by (simp add: prepare_def cache_get_def Let_def set_type_def set_last_modified_def set_etag_def
      split: option.splits)

lemma marshal_hit:
  assumes "src_path (source (heap w r)) = PString p" and "cache w p = Some (Record d)"
    and "src_settings (source (heap w r)) = Some st"
    and "cache w ''hasOwnProperty'' = None"
  shows "marshal env r w =
    (Inr (rec_data d),
     store r
       ((heap w r)\<lparr>headers := (headers (heap w r))
            \<lparr>h_last_modified := rec_mtime d,
             h_content_length := Some
               (case opt_end st of
                  Some e \<Rightarrow>
                    plusOne (difference e (case opt_start st of None \<Rightarrow> 0 | Some s \<Rightarrow> s))
                | None \<Rightarrow>
                    difference (int (rec_size d))
                      (case opt_start st of None \<Rightarrow> 0 | Some s \<Rightarrow> s))\<rparr>,
          source := empty_source\<rparr>) w)"
  using assms
  by (simp add: marshal_whole cache_get_def Let_def set_last_modified_def setBytes_def bytes_def
      store_def clear_source_def split: option.splits)

lemma hit_then_marshal:
  assumes path: "src_path (source (heap w r)) = PString p"
    and rec: "cache w p = Some (Record d)"
    and st: "src_settings (source (heap w r)) = Some st"
    and usable: "cache w ''hasOwnProperty'' = None"
  shows "fst (prepare env r w) = Inr r"
    and "trace (snd (prepare env r w)) = trace w"
    and "h_content_type (headers (heap (snd (prepare env r w)) r)) =
          (if truthy (h_content_type (headers (heap w r)))
           then h_content_type (headers (heap w r)) else Some ''text/css'')"
    and "h_last_modified (headers (heap (snd (prepare env r w)) r)) =
          (if truthy (rec_mtime d) then rec_mtime d else h_last_modified (headers (heap w r)))"
    and "h_etag (headers (heap (snd (prepare env r w)) r)) =
          (if truthy (rec_etag d) then Some (entityTag env (TagString (orEmpty (rec_etag d))))
           else h_etag (headers (heap w r)))"
    and "fst (marshal env' r (snd (prepare env r w))) = Inr (rec_data d)"
    and "trace (snd (marshal env' r (snd (prepare env r w)))) = trace w"
    and "cache (snd (marshal env' r (snd (prepare env r w)))) = cache w"
    and "h_last_modified (headers (heap (snd (marshal env' r (snd (prepare env r w)))) r)) = rec_mtime d"
    and "h_etag (headers (heap (snd (marshal env' r (snd (prepare env r w)))) r)) =
          h_etag (headers (heap (snd (prepare env r w)) r))"
proof -
  let ?w2 = "snd (prepare env r w)"
  note hit = prepare_hit [OF path rec usable, of env]
  show "fst (prepare env r w) = Inr r" by (simp add: hit)
  show "trace ?w2 = trace w" by (simp add: hit store_def)
  show "h_content_type (headers (heap ?w2 r)) =
          (if truthy (h_content_type (headers (heap w r)))
           then h_content_type (headers (heap w r)) else Some ''text/css'')"
    by (simp add: hit store_def)
  show "h_last_modified (headers (heap ?w2 r)) =
          (if truthy (rec_mtime d) then rec_mtime d else h_last_modified (headers (heap w r)))"
    by (simp add: hit store_def)
  show "h_etag (headers (heap ?w2 r)) =
          (if truthy (rec_etag d) then Some (entityTag env (TagString (orEmpty (rec_etag d))))
           else h_etag (headers (heap w r)))"
    by (auto simp: hit store_def orEmpty_def truthy_def split: option.splits)
  have path2: "src_path (source (heap ?w2 r)) = PString p"
    and st2: "src_settings (source (heap ?w2 r)) = Some st"
    and rec2: "cache ?w2 p = Some (Record d)"
    and usable2: "cache ?w2 ''hasOwnProperty'' = None"
    using path st rec usable by (simp_all add: hit store_def)
  note mhit = marshal_hit [OF path2 rec2 st2 usable2, of env']
  show "fst (marshal env' r ?w2) = Inr (rec_data d)" by (simp add: mhit)
  show "trace (snd (marshal env' r ?w2)) = trace w" by (simp add: mhit) (simp add: hit store_def)
  show "cache (snd (marshal env' r ?w2)) = cache w" by (simp add: mhit) (simp add: hit store_def)
  show "h_last_modified (headers (heap (snd (marshal env' r ?w2)) r)) = rec_mtime d"
    by (simp add: mhit store_def)
  show "h_etag (headers (heap (snd (marshal env' r ?w2)) r)) = h_etag (headers (heap ?w2 r))"
    by (simp add: mhit store_def)
qed

section \<open>The server that has served \<open>site.css\<close>\<close>

lemmas run_defs = load_def fileResponse_def resolvedPath_def path_defs site_defs
  generateResponse_def prepare_def cache_get_def cache_set_def emit_def store_def
  prepare_catch_throws truthy_def set_type_def set_last_modified_def set_etag_def bytes_def
  no_headers_def marshal_whole setBytes_def clear_source_def empty_source_def
  difference_def toDouble_exact Let_def

lemma preparedWorld_facts:
  "src_path (source (heap preparedWorld 0)) = PString ''/srv/css/site.css''"
  "src_settings (source (heap preparedWorld 0)) = Some cssOptions"
  "cache preparedWorld ''/srv/css/site.css'' = None"
  "trace preparedWorld = [Generated 0, OpenStat (PString ''/srv/css/site.css''),
     EtagApply (PString ''/srv/css/site.css'')]"
  by (simp_all add: preparedWorld_def run_defs)

lemma first_marshal:
  "fst (marshal siteEnv 0 preparedWorld) = Inr ''a { color: red }''"
  by (simp add: preparedWorld_def run_defs)

lemma servedWorld_facts:
  "cache servedWorld ''/srv/css/site.css'' = Some (Record siteRecord)"
  "h_content_length (headers (heap servedWorld 0)) = Some (Num 16)"
  "trace servedWorld = [Generated 0, OpenStat (PString ''/srv/css/site.css''),
     EtagApply (PString ''/srv/css/site.css''), ReadFile (PString ''/srv/css/site.css''), Process]"
  "cache servedWorld ''hasOwnProperty'' = None"
  by (simp_all add: servedWorld_def preparedWorld_def siteRecord_def quoted_def run_defs)

lemma secondWorld_facts:
  "src_path (source (heap secondWorld 1)) = PString ''/srv/css/site.css''"
  "src_settings (source (heap secondWorld 1)) = Some rangeOptions"
  "h_last_modified (headers (heap secondWorld 1)) = None"
  "h_etag (headers (heap secondWorld 1)) = None"
  "trace secondWorld = trace servedWorld @ [Generated 1]"
  "cache secondWorld = cache servedWorld"
  by (simp_all add: secondWorld_def servedWorld_def preparedWorld_def rangeOptions_def editedEnv_def run_defs)

section \<open>The byte length\<close>

text \<open>
  Claim C6 as it is written fails. With \<open>start = 0\<close> and \<open>end = 2^53\<close> the claim asks
  for \<open>2^53 - 0 + 1\<close>, which is 9007199254740993. \<open>marshal\<close> returns and sets the header
  to 9007199254740992: the sum is computed in doubles, and \<open>2^53 + 1\<close> is not one.
\<close>

theorem content_length_beyond_safe_range:
  "src_settings (source (heap hugePrepared 0)) = Some hugeOptions \<and>
   opt_start hugeOptions = Some 0 \<and> opt_end hugeOptions = Some 9007199254740992 \<and>
   fst (marshal siteEnv 0 hugePrepared) = Inr ''a { color: red }'' \<and>
   h_content_length (headers (heap (snd (marshal siteEnv 0 hugePrepared)) 0))
     = Some (Num 9007199254740992) \<and>
   Num 9007199254740992 \<noteq> Num (9007199254740992 - 0 + 1)"
  by (simp add: hugePrepared_def hugeOptions_def run_defs toDouble_beyond)

text \<open>
  Claim C6, amended. When \<open>marshal\<close> returns and the numbers are within the safe range,
  the \<open>content-length\<close> header of the response is \<open>end - start + 1\<close> when \<open>end\<close> is set
  and \<open>size - start\<close> when it is not, where \<open>start\<close> is 0 when it is not set, and \<open>size\<close>
  is the size of the cached record when the cache held a full record for the path, and
  the length of the css just computed when it did not.
\<close>

theorem marshal_content_length:
  assumes returns: "marshal env r w = (Inr css, w')"
    and settings: "src_settings (source (heap w r)) = Some st"
    and safe: "safeRange st
       (case full_record (cache w (key_of (src_path (source (heap w r))))) of
          Some d \<Rightarrow> rec_size d
        | None \<Rightarrow> length css)"
  shows "h_content_length (headers (heap w' r)) = Some (Num
       (case opt_end st of
          Some e \<Rightarrow> e - (case opt_start st of None \<Rightarrow> 0 | Some s \<Rightarrow> s) + 1
        | None \<Rightarrow>
            int (case full_record (cache w (key_of (src_path (source (heap w r))))) of
                   Some d \<Rightarrow> rec_size d
                 | None \<Rightarrow> length css)
            - (case opt_start st of None \<Rightarrow> 0 | Some s \<Rightarrow> s)))"
proof -
  let ?start = "case opt_start st of None \<Rightarrow> 0 | Some s \<Rightarrow> s"
  let ?sz = "case full_record (cache w (key_of (src_path (source (heap w r))))) of
          Some d \<Rightarrow> rec_size d
        | None \<Rightarrow> length css"
  have exact: "\<And>i. isSafeInteger i \<Longrightarrow> toDouble i = Num i \<and> toDouble (i + 1) = Num (i + 1)"
    by (simp add: isSafeInteger_def toDouble_exact)
  have sum: "\<And>e. opt_end st = Some e \<Longrightarrow>
      plusOne (difference e ?start) = Num (e - ?start + 1)"
    using safe exact by (simp add: safeRange_def difference_def Let_def)
  have diff: "opt_end st = None \<Longrightarrow> difference (int ?sz) ?start = Num (int ?sz - ?start)"
    using safe exact by (simp add: safeRange_def difference_def Let_def)
  from returns obtain found
    where got: "cache_get (cache w) (key_of (src_path (source (heap w r)))) = Inr found"
    by (cases "cache_get (cache w) (key_of (src_path (source (heap w r))))")
       (simp_all add: marshal_whole)
  then have found: "found = cache w (key_of (src_path (source (heap w r))))"
    by (simp add: cache_get_def split: option.splits)
  show ?thesis
  proof (cases "full_record found")
    case (Some d)
    with returns got settings found sum diff show ?thesis
      by (auto simp: marshal_whole Let_def set_last_modified_def setBytes_def bytes_def
          store_def clear_source_def split: option.splits)
  next
    case None
    with returns got settings found sum diff show ?thesis
      by (auto simp: marshal_whole Let_def cache_set_def emit_def setBytes_def bytes_def
          store_def clear_source_def split: option.splits sum.splits if_splits)
  qed
qed

theorem marshal_content_length_witness:
  "marshal siteEnv 0 preparedWorld = (Inr ''a { color: red }'', servedWorld) \<and>
   full_record (cache preparedWorld ''/srv/css/site.css'') = None \<and>
   src_settings (source (heap preparedWorld 0)) = Some cssOptions \<and>
   opt_start cssOptions = None \<and> opt_end cssOptions = None \<and>
   safeRange cssOptions (length ''a { color: red }'') \<and>
   h_content_length (headers (heap servedWorld 0))
     = Some (Num (int (length ''a { color: red }'') - 0)) \<and>
   src_settings (source (heap secondWorld 1)) = Some rangeOptions \<and>
   opt_start rangeOptions = Some 2 \<and> opt_end rangeOptions = Some 9 \<and>
   safeRange rangeOptions (rec_size siteRecord) \<and>
   fst (marshal editedEnv 1 secondWorld) = Inr ''a { color: red }'' \<and>
   h_content_length (headers (heap (snd (marshal editedEnv 1 secondWorld)) 1))
     = Some (Num (9 - 2 + 1))"
proof -
  have m1: "marshal siteEnv 0 preparedWorld = (Inr ''a { color: red }'', servedWorld)"
    using first_marshal by (simp add: servedWorld_def prod_eq_iff)
  have opts: "opt_start cssOptions = None" "opt_end cssOptions = None"
    "opt_start rangeOptions = Some 2" "opt_end rangeOptions = Some 9"
    by (simp_all add: cssOptions_def rangeOptions_def)
  have safe: "safeRange cssOptions (length ''a { color: red }'')"
    "safeRange rangeOptions (rec_size siteRecord)"
    by (simp_all add: safeRange_def isSafeInteger_def cssOptions_def rangeOptions_def
        siteRecord_def)
  have miss: "full_record (cache preparedWorld ''/srv/css/site.css'') = None"
    by (simp add: preparedWorld_facts)
  from marshal_content_length [OF m1 preparedWorld_facts(2)] preparedWorld_facts opts miss safe
  have len1: "h_content_length (headers (heap servedWorld 0))
      = Some (Num (int (length ''a { color: red }'') - 0))"
    by simp
  have usable: "cache secondWorld ''hasOwnProperty'' = None"
    by (simp add: secondWorld_facts servedWorld_facts)
  have f2: "fst (marshal editedEnv 1 secondWorld) = Inr ''a { color: red }''"
    using marshal_hit [OF secondWorld_facts(1) _ secondWorld_facts(2) usable, of _ editedEnv]
      servedWorld_facts(1) secondWorld_facts(6)
    by (simp add: siteRecord_def)
  then have m2: "marshal editedEnv 1 secondWorld
      = (Inr ''a { color: red }'', snd (marshal editedEnv 1 secondWorld))"
    by (simp add: prod_eq_iff)
  from marshal_content_length [OF m2 secondWorld_facts(2)] secondWorld_facts opts
    servedWorld_facts(1) safe
  have len2: "h_content_length (headers (heap (snd (marshal editedEnv 1 secondWorld)) 1))
      = Some (Num (9 - 2 + 1))"
    by simp
  from m1 f2 miss opts safe len1 len2 preparedWorld_facts(2) secondWorld_facts(2) show ?thesis
    by simp
qed

section \<open>Serving a second request\<close>

text \<open>
  Claim C2, which the code does not meet. The file handler is configured with
  \<open>site.css\<close>. The first request is served completely: the handler builds response 0,
  \<open>prepare\<close> stats the file, \<open>marshal\<close> transforms it and stores the full record under
  the resolved path \<open>/srv/css/site.css\<close>, and empties the source of the response. For
  the second request the handler returns the same response object. Its source has no
  path any more, so \<open>prepare\<close> looks up the key \<open>undefined\<close>, finds nothing, and goes to
  the file system: it calls \<open>openStat\<close> and throws. The record in the cache is not used.
\<close>

theorem spent_response_is_prepared_again:
  "cache (runAll handlerRequest freshWorld) ''/srv/css/site.css'' = Some (Record siteRecord) \<and>
   trace (runAll handlerRequest freshWorld)
     = [Generated 0, OpenStat (PString ''/srv/css/site.css''),
        EtagApply (PString ''/srv/css/site.css''), ReadFile (PString ''/srv/css/site.css''),
        Process] \<and>
   handler siteEnv (PathString ''site.css'') cssOptions siteRequest (runAll handlerRequest freshWorld)
     = (Inr (Descriptor 0), runAll handlerRequest freshWorld) \<and>
   src_path (source (heap (runAll handlerRequest freshWorld) 0)) = PUndefined \<and>
   fst (prepare siteEnv 0 (runAll handlerRequest freshWorld))
     = Inl (Thrown ''TypeError: internals.close is not a function'') \<and>
   trace (snd (prepare siteEnv 0 (runAll handlerRequest freshWorld)))
     = trace (runAll handlerRequest freshWorld) @ [OpenStat PUndefined]"
  by (simp add: handlerRequest_def handler_def configuredPath_def siteRecord_def quoted_def
      run_defs)

text \<open>
  The same happens without the file handler when the resolved path is \<open>__proto__\<close>: the
  record of the first request is not kept, and the second request, on a response of its
  own, stats, reads and transforms again.
\<close>

lemma proto_record_is_not_kept:
  "resolvedPath fullEnv looseRequest looseOptions ''__proto__'' = PString ''__proto__'' \<and>
   cache (runAll protoRequests freshWorld) = Map.empty \<and>
   trace (runAll protoRequests freshWorld)
     = [Generated 0, OpenStat (PString ''__proto__''), EtagApply (PString ''__proto__''),
        ReadFile (PString ''__proto__''), Process,
        Generated 1, OpenStat (PString ''__proto__''), EtagApply (PString ''__proto__''),
        ReadFile (PString ''__proto__''), Process]"
  by (simp add: protoRequests_def fullEnv_def looseRequest_def looseOptions_def run_defs)

section \<open>Requests that overlap\<close>

lemma racePrepared_facts:
  "cache racePrepared = Map.empty"
  "src_path (source (heap racePrepared 0)) = PString ''/srv/css/site.css''"
  "src_path (source (heap racePrepared 1)) = PString ''/srv/css/site.css''"
  "h_last_modified (headers (heap racePrepared 0)) = Some ''Mon, 02 Nov 2026 10:00:00 GMT''"
  "h_last_modified (headers (heap racePrepared 1)) = Some ''Tue, 03 Nov 2026 08:30:00 GMT''"
  by (simp_all add: racePrepared_def editedEnv_def run_defs)

lemma race_started: "marshalStart 1 racePrepared = (Inr racePending, raceStarted)"
  by (simp add: raceStarted_def racePending_def racePrepared_def marshalStart_def editedEnv_def
      quoted_def prod_eq_iff run_defs)

lemma race_stored: "cache raceStored ''/srv/css/site.css'' = Some (Record firstRecord)"
  by (simp add: raceStored_def raceStarted_def racePrepared_def marshalStart_def editedEnv_def
      firstRecord_def quoted_def run_defs)

lemma race_end: "cache raceEnd ''/srv/css/site.css'' = Some (Record laterRecord)"
  by (simp add: raceEnd_def racePending_def marshalResume_def cache_set_def setBytes_def
      store_def clear_source_def emit_def editedEnv_def siteEnv_def present_def laterRecord_def
      firstRecord_def quoted_def Let_def split: prod.splits sum.splits option.splits)

lemma race_overlaps:
  "marshalDuring editedEnv 1 [(editedEnv, OpMarshal 0)] [] racePrepared
     = marshalResume editedEnv racePending raceStored"
  using race_started
  by (simp add: marshalDuring_def raceStored_def marshalResume_def split: prod.splits sum.splits)

text \<open>
  Claim C5 as it is written fails. Two requests for \<open>site.css\<close> overlap: the second one
  has missed the cache and waits for the file when the first one stores its full record,
  with the modification time of Monday. A request that is prepared now gets that time as
  \<open>last-modified\<close>. Then the second request is resumed and stores its own record, with
  the time of Tuesday, over the first: a request that is prepared after that gets
  Tuesday's time. And on the server that has served \<open>site.css\<close> once, the stored \<open>etag\<close>
  is \<open>5-abc\<close> in quotes, and the \<open>etag\<close> header that \<open>prepare\<close> sets from it is that
  text in quotes again.
\<close>

theorem overlapping_marshal_replaces_record:
  "marshalStart 1 racePrepared = (Inr racePending, raceStarted) \<and>
   cache raceStored ''/srv/css/site.css'' = Some (Record firstRecord) \<and>
   rec_mtime firstRecord = Some ''Mon, 02 Nov 2026 10:00:00 GMT'' \<and>
   h_last_modified (headers (heap (snd (load editedEnv siteRequest ''site.css'' cssOptions raceStored)) 2))
     = Some ''Mon, 02 Nov 2026 10:00:00 GMT'' \<and>
   snd (marshalDuring editedEnv 1 [(editedEnv, OpMarshal 0)] [] racePrepared) = raceEnd \<and>
   cache raceEnd ''/srv/css/site.css'' = Some (Record laterRecord) \<and>
   rec_mtime laterRecord = Some ''Tue, 03 Nov 2026 08:30:00 GMT'' \<and>
   h_last_modified (headers (heap (snd (load editedEnv siteRequest ''site.css'' cssOptions raceEnd)) 2))
     = Some ''Tue, 03 Nov 2026 08:30:00 GMT'' \<and>
   cache secondWorld ''/srv/css/site.css'' = Some (Record siteRecord) \<and>
   rec_etag siteRecord = Some (CHR 0x22 # ''5-abc'' @ [CHR 0x22]) \<and>
   h_etag (headers (heap (snd (prepare editedEnv 1 secondWorld)) 1))
     = Some (CHR 0x22 # CHR 0x22 # ''5-abc'' @ [CHR 0x22, CHR 0x22])"
proof -
  have next2: "next_ref raceStored = 2" "next_ref raceEnd = 2"
    "cache raceStored ''hasOwnProperty'' = None" "cache raceEnd ''hasOwnProperty'' = None"
    by (simp_all add: raceEnd_def racePending_def marshalResume_def raceStored_def raceStarted_def
        racePrepared_def marshalStart_def editedEnv_def run_defs)
  have seen: "\<And>w d. next_ref w = 2 \<Longrightarrow> cache w ''hasOwnProperty'' = None \<Longrightarrow>
      cache w ''/srv/css/site.css'' = Some (Record d) \<Longrightarrow> truthy (rec_mtime d) \<Longrightarrow>
      h_last_modified (headers (heap (snd (load editedEnv siteRequest ''site.css'' cssOptions w)) 2))
        = rec_mtime d"
    by (auto simp: load_def fileResponse_def resolvedPath_def path_defs siteRequest_def
        cssOptions_def validMode_def editedEnv_def siteEnv_def generateResponse_def prepare_def
        cache_get_def store_def set_type_def set_last_modified_def set_etag_def truthy_def
        no_headers_def Let_def split: option.splits)
  have times: "rec_mtime firstRecord = Some ''Mon, 02 Nov 2026 10:00:00 GMT''"
    "rec_mtime laterRecord = Some ''Tue, 03 Nov 2026 08:30:00 GMT''"
    "truthy (rec_mtime firstRecord)" "truthy (rec_mtime laterRecord)"
    by (simp_all add: firstRecord_def laterRecord_def truthy_def)
  have tag: "rec_etag siteRecord = Some (CHR 0x22 # ''5-abc'' @ [CHR 0x22])"
    by (simp add: siteRecord_def quoted_def)
  have cached: "cache secondWorld ''/srv/css/site.css'' = Some (Record siteRecord)"
    "cache secondWorld ''hasOwnProperty'' = None"
    by (simp_all add: secondWorld_facts servedWorld_facts)
  have header: "h_etag (headers (heap (snd (prepare editedEnv 1 secondWorld)) 1))
     = Some (CHR 0x22 # CHR 0x22 # ''5-abc'' @ [CHR 0x22, CHR 0x22])"
    using hit_then_marshal(5) [OF secondWorld_facts(1) cached(1) secondWorld_facts(2) cached(2),
        of editedEnv]
    by (simp add: siteRecord_def quoted_def truthy_def orEmpty_def editedEnv_def siteEnv_def)
  have overlap: "snd (marshalDuring editedEnv 1 [(editedEnv, OpMarshal 0)] [] racePrepared) = raceEnd"
    using race_overlaps by (simp add: raceEnd_def)
  from seen [OF next2(1) next2(3) race_stored times(3)] seen [OF next2(2) next2(4) race_end times(4)]
    race_started race_stored race_end times tag cached(1) header overlap
  show ?thesis by simp
qed

text \<open>
  Claim C5, amended. As long as the calls run one after another, a full record in the
  cache is the same record after any sequence of them, whatever the file system does in
  between. For a response for that path, on a cache that can still be read, \<open>prepare\<close>
  returns and sets \<open>last-modified\<close> to the \<open>mtime\<close> of the record (when the record has
  one), \<open>marshal\<close> returns the css of the record and sets \<open>last-modified\<close> to the \<open>mtime\<close>
  of the record, and the record is still there. Nothing is said of the \<open>etag\<close> header.
\<close>

theorem full_record_is_pinned:
  assumes rec: "cache w p = Some (Record d)"
    and path: "src_path (source (heap (runAll ops w) r)) = PString p"
    and st: "src_settings (source (heap (runAll ops w) r)) = Some st"
    and usable: "cache (runAll ops w) ''hasOwnProperty'' = None"
  shows "cache (runAll ops w) p = Some (Record d) \<and>
     fst (prepare env r (runAll ops w)) = Inr r \<and>
     h_last_modified (headers (heap (snd (prepare env r (runAll ops w))) r)) =
       (if truthy (rec_mtime d) then rec_mtime d
        else h_last_modified (headers (heap (runAll ops w) r))) \<and>
     fst (marshal env' r (snd (prepare env r (runAll ops w)))) = Inr (rec_data d) \<and>
     h_last_modified (headers (heap (snd (marshal env' r (snd (prepare env r (runAll ops w))))) r))
       = rec_mtime d \<and>
     cache (snd (marshal env' r (snd (prepare env r (runAll ops w))))) p = Some (Record d)"
proof -
  from runAll_pins [OF rec, of ops] have pinned: "cache (runAll ops w) p = Some (Record d)" .
  note facts = hit_then_marshal [OF path pinned st usable]
  from pinned show ?thesis by (simp add: facts)
qed

theorem full_record_is_pinned_witness:
  "cache servedWorld ''/srv/css/site.css'' = Some (Record siteRecord) \<and>
   src_path (source (heap secondWorld 1)) = PString ''/srv/css/site.css'' \<and>
   src_settings (source (heap secondWorld 1)) = Some rangeOptions \<and>
   cache secondWorld ''hasOwnProperty'' = None \<and>
   openStat editedEnv (PString ''/srv/css/site.css'')
     = Inr \<lparr>stat_mtime = ''Tue, 03 Nov 2026 08:30:00 GMT'', stat_size = 15\<rparr> \<and>
   readFile editedEnv (PString ''/srv/css/site.css'') = Inr ''b { margin: 0 }'' \<and>
   cache secondWorld ''/srv/css/site.css'' = Some (Record siteRecord) \<and>
   fst (prepare editedEnv 1 secondWorld) = Inr 1 \<and>
   h_last_modified (headers (heap (snd (prepare editedEnv 1 secondWorld)) 1))
     = Some ''Mon, 02 Nov 2026 10:00:00 GMT'' \<and>
   fst (marshal editedEnv 1 (snd (prepare editedEnv 1 secondWorld))) = Inr ''a { color: red }'' \<and>
   h_last_modified (headers (heap (snd (marshal editedEnv 1 (snd (prepare editedEnv 1 secondWorld)))) 1))
     = Some ''Mon, 02 Nov 2026 10:00:00 GMT'' \<and>
   cache (snd (marshal editedEnv 1 (snd (prepare editedEnv 1 secondWorld)))) ''/srv/css/site.css''
     = Some (Record siteRecord)"
proof -
  let ?ops = "[(editedEnv, OpFileResponse siteRequest ''site.css'' rangeOptions False)]"
  have second: "runAll ?ops servedWorld = secondWorld" by (simp only: secondWorld_def)
  have edited: "openStat editedEnv (PString ''/srv/css/site.css'')
     = Inr \<lparr>stat_mtime = ''Tue, 03 Nov 2026 08:30:00 GMT'', stat_size = 15\<rparr>"
    "readFile editedEnv (PString ''/srv/css/site.css'') = Inr ''b { margin: 0 }''"
    by (simp_all add: editedEnv_def siteEnv_def present_def)
  have tags: "truthy (rec_mtime siteRecord)"
    "rec_mtime siteRecord = Some ''Mon, 02 Nov 2026 10:00:00 GMT''"
    "rec_data siteRecord = ''a { color: red }''"
    by (simp_all add: siteRecord_def truthy_def)
  have path: "src_path (source (heap (runAll ?ops servedWorld) 1)) = PString ''/srv/css/site.css''"
    and st: "src_settings (source (heap (runAll ?ops servedWorld) 1)) = Some rangeOptions"
    and usable: "cache (runAll ?ops servedWorld) ''hasOwnProperty'' = None"
    by (simp_all only: second secondWorld_facts servedWorld_facts)
  from full_record_is_pinned [OF servedWorld_facts(1) path st usable, of editedEnv editedEnv]
    second tags servedWorld_facts(1) secondWorld_facts(1,2) edited usable
  show ?thesis by simp
qed

section \<open>The file handler after a full request\<close>

text \<open>
  Claim C10, which the code does not meet. The handler is configured with the absolute
  path \<open>/srv/css/site.css\<close>, which is also the resolved path. The first call builds
  response 0 and returns it. After \<open>prepare\<close> and \<open>marshal\<close> of that response, the cache holds
  under the same key the record that \<open>marshal\<close> stored, and the next call of the handler
  returns this record, not the response object. One response was built.
\<close>

theorem handler_returns_record_after_marshal:
  "configuredPath (PathString ''/srv/css/site.css'') siteRequest = ''/srv/css/site.css'' \<and>
   resolvedPath siteEnv siteRequest cssOptions ''/srv/css/site.css'' = PString ''/srv/css/site.css'' \<and>
   fst (handler siteEnv (PathString ''/srv/css/site.css'') cssOptions siteRequest freshWorld)
     = Inr (Descriptor 0) \<and>
   fst (handler siteEnv (PathString ''/srv/css/site.css'') cssOptions siteRequest
          (runAll absoluteRequest freshWorld))
     = Inr (Record \<lparr>rec_mtime = None, rec_etag = Some (entityTag siteEnv TagMethod),
              rec_data = ''a { color: red }'', rec_size = 16\<rparr>) \<and>
   generated (runAll absoluteRequest freshWorld) = 1"
  by (simp add: absoluteRequest_def handler_def configuredPath_def generated_def run_defs)

end
